theory Spec2Isabelle
  imports Main
begin

section \<open>JavaScript values used by the extension\<close>

text \<open>
  Strings are sequences of code units; \<open>startsWith\<close> and \<open>includes\<close> are the
  methods of \<open>String.prototype\<close> the service worker calls: both compare code units
  exactly, so both are case-sensitive (\<open>includes\<close> is \<open>includes_str\<close> here).
\<close>

fun startsWith :: "string \<Rightarrow> string \<Rightarrow> bool" where
  "startsWith s [] = True"
| "startsWith [] (p # ps) = False"
| "startsWith (c # cs) (p # ps) = (c = p \<and> startsWith cs ps)"

fun includes_str :: "string \<Rightarrow> string \<Rightarrow> bool" where
  "includes_str [] p = (p = [])"
| "includes_str (c # cs) p = (startsWith (c # cs) p \<or> includes_str cs p)"

text \<open>A thrown or rejected value: an error object with its \<open>name\<close> and \<open>message\<close>.\<close>

datatype js_error = Err (err_name: string) (err_message: string)

text \<open>
  The result of \<open>parseInt\<close>: a number that is an integer, or \<open>NaN\<close> when the text
  does not start with digits.
\<close>

datatype js_number = NaN | Num int

section \<open>Data model\<close>

text \<open>
  The interceptor posts \<open>{type: 'INTERCEPTED_REQUEST', url, method, responseBody,
  contentType, timestamp}\<close>; \<open>contentType\<close> is what \<open>headers.get('Content-Type')\<close>
  or \<open>getResponseHeader('Content-Type')\<close> returns, a string or \<open>null\<close>. The property
  \<open>method\<close> is the field \<open>req_method\<close>.
\<close>

record capture =
  url :: string
  req_method :: string
  responseBody :: string
  contentType :: "string option"
  timestamp :: int

text \<open>content.js adds \<open>pageLoadId\<close> before it forwards the message to the service worker.\<close>

record requestData = capture +
  pageLoadId :: string

text \<open>
  A record of the object store \<open>requests\<close>. The store is created with
  \<open>{keyPath: 'id', autoIncrement: true}\<close>: the engine writes the generated key into
  the property \<open>id\<close> of the stored value (here \<open>rec_id\<close>).
\<close>

record logRecord = requestData +
  rec_id :: nat

section \<open>The object store (IndexedDB)\<close>

text \<open>
  The state of the object store: its records in key order, and the current number of
  its key generator. The engine serialises the read-write transactions on the store, so
  every operation below is one atomic step.
\<close>

record objectStore =
  records :: "logRecord list"
  keyGenerator :: nat

text \<open>
  \<open>initDatabase\<close>, \<open>onupgradeneeded\<close>: the store is created empty with three
  non-unique indexes; a new key generator starts at 1.
\<close>

definition createObjectStore :: objectStore where
  "createObjectStore = \<lparr>records = [], keyGenerator = 1\<rparr>"

text \<open>
  What the engine does with one operation: it works, or \<open>indexedDB.open\<close> fires
  \<open>onerror\<close> (so \<open>initDatabase\<close> rejects), or the request on the store fires
  \<open>onerror\<close> (quota exceeded, for instance). A failed request is reverted: it leaves
  the records and the key generator as they were.
\<close>

datatype engine = Healthy | OpenFails js_error | RequestFails js_error

definition ConstraintError :: js_error where
  "ConstraintError = Err ''ConstraintError'' ''The key generator has reached its maximum value.''"

definition DataError :: js_error where
  "DataError = Err ''DataError'' ''The parameter is not a valid key.''"

text \<open>
  \<open>saveRequest(requestData)\<close>: \<open>store.add\<close> of a value with no \<open>id\<close> property. The
  key is the generator's current number, which then increases by one; a generator above
  \<open>2^53\<close> fails with a \<open>ConstraintError\<close>. The promise resolves with the key
  (\<open>request.result\<close>) or rejects with the error.
\<close>

definition saveRequest :: "engine \<Rightarrow> requestData \<Rightarrow> objectStore \<Rightarrow> (js_error + nat) \<times> objectStore" where
  "saveRequest eng d s =
     (case eng of
        OpenFails e \<Rightarrow> (Inl e, s)
      | RequestFails e \<Rightarrow> (Inl e, s)
      | Healthy \<Rightarrow>
          if keyGenerator s > 2 ^ 53 then (Inl ConstraintError, s)
          else (Inr (keyGenerator s),
                s\<lparr>records := records s @
                     [\<lparr>url = url d, req_method = req_method d, responseBody = responseBody d,
                       contentType = contentType d, timestamp = timestamp d,
                       pageLoadId = pageLoadId d, rec_id = keyGenerator s\<rparr>],
                   keyGenerator := keyGenerator s + 1\<rparr>))"

text \<open>
  \<open>getRequestsByPageLoadId(pageLoadId)\<close>: \<open>index.getAll(pageLoadId)\<close> on the index
  \<open>pageLoadId\<close>, the records with that index key, in key order.
\<close>

definition getRequestsByPageLoadId :: "engine \<Rightarrow> string \<Rightarrow> objectStore \<Rightarrow> js_error + logRecord list" where
  "getRequestsByPageLoadId eng p s =
     (case eng of
        OpenFails e \<Rightarrow> Inl e
      | RequestFails e \<Rightarrow> Inl e
      | Healthy \<Rightarrow> Inr (filter (\<lambda>r. pageLoadId r = p) (records s)))"

text \<open>\<open>clearAllRequests()\<close>: \<open>store.clear()\<close>, which does not touch the key generator.\<close>

definition clearAllRequests :: "engine \<Rightarrow> objectStore \<Rightarrow> (js_error + unit) \<times> objectStore" where
  "clearAllRequests eng s =
     (case eng of
        OpenFails e \<Rightarrow> (Inl e, s)
      | RequestFails e \<Rightarrow> (Inl e, s)
      | Healthy \<Rightarrow> (Inr (), s\<lparr>records := []\<rparr>))"

text \<open>
  \<open>deleteRequestById(id)\<close>: \<open>store.delete(id)\<close>. \<open>NaN\<close> is not a valid key:
  \<open>delete\<close> throws a \<open>DataError\<close> inside the promise's executor, which rejects
  the promise. For a valid key the request succeeds whether or not a record has it.
\<close>

definition deleteRequestById :: "engine \<Rightarrow> js_number \<Rightarrow> objectStore \<Rightarrow> (js_error + unit) \<times> objectStore" where
  "deleteRequestById eng k s =
     (case eng of
        OpenFails e \<Rightarrow> (Inl e, s)
      | RequestFails e \<Rightarrow> (Inl e, s)
      | Healthy \<Rightarrow>
          (case k of
             NaN \<Rightarrow> (Inl DataError, s)
           | Num i \<Rightarrow> (Inr (), s\<lparr>records := filter (\<lambda>r. int (rec_id r) \<noteq> i) (records s)\<rparr>)))"

section \<open>JSON values and the provider's replies\<close>

text \<open>
  A value produced by \<open>JSON.parse\<close>. Numbers are restricted to the integers that
  JavaScript prints in decimal notation (below \<open>10^21\<close> in magnitude). A property
  read yields a value or \<open>undefined\<close>, which is \<open>None\<close> of \<open>json option\<close>.
\<close>

datatype json = JNull | JBool bool | JNum int | JStr string | JArr "json list" | JObj "(string \<times> json) list"

fun truthy :: "json option \<Rightarrow> bool" where
  "truthy None = False"
| "truthy (Some JNull) = False"
| "truthy (Some (JBool b)) = b"
| "truthy (Some (JNum n)) = (n \<noteq> 0)"
| "truthy (Some (JStr s)) = (s \<noteq> [])"
| "truthy (Some (JArr xs)) = True"
| "truthy (Some (JObj kvs)) = True"

text \<open>\<open>a || b\<close>: the left operand when it is truthy, the right one otherwise.\<close>

fun or_else :: "json option \<Rightarrow> json \<Rightarrow> json" where
  "or_else None b = b"
| "or_else (Some a) b = (if truthy (Some a) then a else b)"

definition cannot_read :: "string \<Rightarrow> string \<Rightarrow> js_error" where
  "cannot_read what n =
     Err ''TypeError'' (''Cannot read properties of '' @ what @ '' (reading '' @ [CHR 0x27] @ n @ [CHR 0x27] @ '')'')"

text \<open>
  \<open>v.n\<close> for the property names the service worker reads (\<open>error\<close>, \<open>message\<close>,
  \<open>candidates\<close>, \<open>choices\<close>, \<open>content\<close>, \<open>parts\<close>, \<open>text\<close>), none of which is
  a property of a prototype: reading from \<open>undefined\<close> or \<open>null\<close> throws, an object
  gives its own property (the last one of that name, as \<open>JSON.parse\<close> keeps it), every
  other value gives \<open>undefined\<close>.
\<close>

fun get_prop :: "json option \<Rightarrow> string \<Rightarrow> js_error + json option" where
  "get_prop None n = Inl (cannot_read ''undefined'' n)"
| "get_prop (Some JNull) n = Inl (cannot_read ''null'' n)"
| "get_prop (Some (JObj kvs)) n = Inr (map_of (rev kvs) n)"
| "get_prop (Some v) n = Inr None"

text \<open>\<open>v?.n\<close> and \<open>v?.[0]\<close>: \<open>undefined\<close> when \<open>v\<close> is \<open>undefined\<close> or \<open>null\<close>.\<close>

fun opt_prop :: "json option \<Rightarrow> string \<Rightarrow> json option" where
  "opt_prop (Some (JObj kvs)) n = map_of (rev kvs) n"
| "opt_prop v n = None"

fun opt_index0 :: "json option \<Rightarrow> json option" where
  "opt_index0 (Some (JArr xs)) = (case xs of [] \<Rightarrow> None | x # rest \<Rightarrow> Some x)"
| "opt_index0 (Some (JStr s)) = (case s of [] \<Rightarrow> None | c # rest \<Rightarrow> Some (JStr [c]))"
| "opt_index0 (Some (JObj kvs)) = map_of (rev kvs) ''0''"
| "opt_index0 v = None"

text \<open>
  The conversion to a string of a template literal \<open>`${v}`\<close>. An object of
  \<open>JSON.parse\<close> prints as \<open>[object Object]\<close>, unless it has a property
  \<open>toString\<close> of its own (which is not callable): then the conversion throws. An
  array joins its elements with commas, \<open>null\<close> printing as the empty string.
\<close>

fun show_nat :: "nat \<Rightarrow> string" where
  "show_nat n = (if n < 10 then [''0123456789'' ! n] else show_nat (n div 10) @ [''0123456789'' ! (n mod 10)])"

definition cannot_convert :: js_error where
  "cannot_convert = Err ''TypeError'' ''Cannot convert object to primitive value''"

fun to_string :: "json \<Rightarrow> js_error + string"
  and join_elements :: "json list \<Rightarrow> js_error + string" where
  "to_string JNull = Inr ''null''"
| "to_string (JBool b) = Inr (if b then ''true'' else ''false'')"
| "to_string (JNum n) = Inr (if n < 0 then CHR ''-'' # show_nat (nat (- n)) else show_nat (nat n))"
| "to_string (JStr s) = Inr s"
| "to_string (JObj kvs) =
     (if ''toString'' \<in> set (map fst kvs) then Inl cannot_convert else Inr ''[object Object]'')"
| "to_string (JArr xs) = join_elements xs"
| "join_elements [] = Inr []"
| "join_elements (x # xs) =
     (case (if x = JNull then Inr [] else to_string x) of
        Inl e \<Rightarrow> Inl e
      | Inr a \<Rightarrow>
          (if xs = [] then Inr a
           else (case join_elements xs of Inl e \<Rightarrow> Inl e | Inr b \<Rightarrow> Inr (a @ '','' @ b))))"

text \<open>
  What \<open>fetch\<close> gives the service worker: a rejection (the network failed), or a
  response with \<open>ok\<close>, \<open>statusText\<close> and the outcome of \<open>response.json()\<close>, which
  rejects with a \<open>SyntaxError\<close> when the body is not JSON.
\<close>

record http_response =
  ok :: bool
  statusText :: string
  json_body :: "js_error + json"

text \<open>
  The request sent to the provider. The prompt embeds the formatted logs and the
  question; its rendering as text is not modelled, its two inputs are kept.
\<close>

record provider_request =
  endpoint :: string
  authorization :: "string option"
  prompt_logs :: "logRecord list"
  prompt_question :: string

type_synonym network = "provider_request \<Rightarrow> js_error + http_response"

section \<open>Calling the provider\<close>

text \<open>
  \<open>logs.map(log => ({..., timestamp: new Date(log.timestamp).toISOString()}))\<close> runs
  before the \<open>try\<close> block: \<open>toISOString\<close> throws a \<open>RangeError\<close> for a time value
  beyond 8.64e15 milliseconds, and that error leaves the function as it is.
\<close>

definition invalid_time :: "logRecord \<Rightarrow> bool" where
  "invalid_time log = (\<bar>timestamp log\<bar> > 8640000000000000)"

definition RangeError :: js_error where
  "RangeError = Err ''RangeError'' ''Invalid time value''"

text \<open>\<open>data.candidates?.[0]?.content?.parts?.[0]?.text || 'No answer found.'\<close>\<close>

definition gemini_answer :: "json \<Rightarrow> js_error + json" where
  "gemini_answer data =
     (case get_prop (Some data) ''candidates'' of
        Inl e \<Rightarrow> Inl e
      | Inr candidates \<Rightarrow>
          Inr (or_else
                 (opt_prop (opt_index0 (opt_prop (opt_prop (opt_index0 candidates) ''content'') ''parts'')) ''text'')
                 (JStr ''No answer found.'')))"

text \<open>\<open>data.choices?.[0]?.message?.content || 'No answer found.'\<close>\<close>

definition openrouter_answer :: "json \<Rightarrow> js_error + json" where
  "openrouter_answer data =
     (case get_prop (Some data) ''choices'' of
        Inl e \<Rightarrow> Inl e
      | Inr choices \<Rightarrow>
          Inr (or_else
                 (opt_prop (opt_prop (opt_index0 choices) ''message'') ''content'')
                 (JStr ''No answer found.'')))"

text \<open>
  The \<open>try\<close> block shared by \<open>callGeminiAPI\<close> and \<open>callOpenRouterAPI\<close>, which differ
  in the request, in the provider's name inside the messages and in the path to the
  answer. Everything thrown inside the block (the rejection of \<open>fetch\<close>, of
  \<open>response.json()\<close>, a property read from \<open>undefined\<close>, the error built for a
  response that is not \<open>ok\<close>) is caught and thrown again as
  \<open>Failed to communicate with ... API: \<close> followed by the message of what was caught.
\<close>

definition provider_try :: "string \<Rightarrow> (json \<Rightarrow> js_error + json) \<Rightarrow> (js_error + http_response) \<Rightarrow> js_error + json" where
  "provider_try label answer_of fetched =
     (case
        (case fetched of
           Inl e \<Rightarrow> Inl e
         | Inr response \<Rightarrow>
             if \<not> ok response then
               (case json_body response of
                  Inl e \<Rightarrow> Inl e
                | Inr errorData \<Rightarrow>
                    (case get_prop (Some errorData) ''error'' of
                       Inl e \<Rightarrow> Inl e
                     | Inr err \<Rightarrow>
                         (case get_prop err ''message'' of
                            Inl e \<Rightarrow> Inl e
                          | Inr msg \<Rightarrow>
                              (case to_string (or_else msg (JStr (statusText response))) of
                                 Inl e \<Rightarrow> Inl e
                               | Inr shown \<Rightarrow> Inl (Err ''Error'' (label @ '' API error: '' @ shown))))))
             else
               (case json_body response of
                  Inl e \<Rightarrow> Inl e
                | Inr data \<Rightarrow> answer_of data))
      of
        Inl error \<Rightarrow> Inl (Err ''Error'' (''Failed to communicate with '' @ label @ '' API: '' @ err_message error))
      | Inr answer \<Rightarrow> Inr answer)"

text \<open>
  The two functions return the answer or the error thrown, and the requests they sent
  (none when the logs cannot be formatted, one otherwise).
\<close>

definition callGeminiAPI :: "network \<Rightarrow> string \<Rightarrow> logRecord list \<Rightarrow> string \<Rightarrow> (js_error + json) \<times> provider_request list" where
  "callGeminiAPI net apiKey logs question =
     (if \<exists>log \<in> set logs. invalid_time log then (Inl RangeError, [])
      else
        let request = \<lparr>endpoint = ''https://generativelanguage.googleapis.com/v1beta/models/gemini-1.5-flash:generateContent?key='' @ apiKey,
                        authorization = None, prompt_logs = logs, prompt_question = question\<rparr>
        in (provider_try ''Gemini'' gemini_answer (net request), [request]))"

text \<open>\<open>callGeminiAPI\<close> of src/background.js: the same function with another model in the URL.\<close>

definition callGeminiAPI_latest :: "network \<Rightarrow> string \<Rightarrow> logRecord list \<Rightarrow> string \<Rightarrow> (js_error + json) \<times> provider_request list" where
  "callGeminiAPI_latest net apiKey logs question =
     (if \<exists>log \<in> set logs. invalid_time log then (Inl RangeError, [])
      else
        let request = \<lparr>endpoint = ''https://generativelanguage.googleapis.com/v1beta/models/gemini-1.5-flash-latest:generateContent?key='' @ apiKey,
                        authorization = None, prompt_logs = logs, prompt_question = question\<rparr>
        in (provider_try ''Gemini'' gemini_answer (net request), [request]))"

definition callOpenRouterAPI :: "network \<Rightarrow> string \<Rightarrow> logRecord list \<Rightarrow> string \<Rightarrow> (js_error + json) \<times> provider_request list" where
  "callOpenRouterAPI net apiKey logs question =
     (if \<exists>log \<in> set logs. invalid_time log then (Inl RangeError, [])
      else
        let request = \<lparr>endpoint = ''https://openrouter.ai/api/v1/chat/completions'',
                        authorization = Some (''Bearer '' @ apiKey), prompt_logs = logs, prompt_question = question\<rparr>
        in (provider_try ''OpenRouter'' openrouter_answer (net request), [request]))"

section \<open>The service worker's message listener\<close>

datatype message =
    CLEAR_ALL_LOGS
  | DELETE_LOG js_number
  | NEW_PAGE_LOAD string
  | INTERCEPTED_REQUEST requestData
  | GET_LOGS string
  | ASK_GEMINI string string
  | OTHER string

text \<open>
  \<open>DELETE_LOG\<close> carries \<open>parseInt(message.logId)\<close>, \<open>NEW_PAGE_LOAD\<close> and
  \<open>GET_LOGS\<close> the \<open>pageLoadId\<close>, \<open>ASK_GEMINI\<close> the \<open>pageLoadId\<close> and the
  \<open>question\<close>; \<open>OTHER\<close> is a message of any other \<open>type\<close>.

  The argument of \<open>sendResponse\<close>:
\<close>

datatype response =
    Status_ok
  | Error_response string
  | Success_true
  | Success_false string
  | Logs "logRecord list"
  | Answer json

text \<open>What a handler does besides answering: the calls it makes on the store and to the provider.\<close>

datatype effect =
    DbAdd requestData
  | DbGetAll string
  | DbClear
  | DbDelete js_number
  | Fetch provider_request

text \<open>
  The outcome of one message: the argument of \<open>sendResponse\<close> (\<open>None\<close> when it is
  never called), the error a \<open>catch\<close> of the listener received and logged with
  \<open>console.error\<close>, the calls made, and the store afterwards.
\<close>

record outcome =
  reply :: "response option"
  caught :: "js_error option"
  trace :: "effect list"
  store :: objectStore

text \<open>
  What the listener reads from outside: the engine's behaviour for the operation, the
  preferences in \<open>chrome.storage.sync\<close>, and the provider.
\<close>

record sync_storage =
  apiProvider :: "string option"
  geminiApiKey :: "string option"
  openrouterApiKey :: "string option"

record env =
  idb :: engine
  sync :: sync_storage
  net :: network

text \<open>A string or \<open>undefined\<close>/\<open>null\<close> in a condition: the empty string is falsy.\<close>

fun truthy_str :: "string option \<Rightarrow> bool" where
  "truthy_str None = False"
| "truthy_str (Some s) = (s \<noteq> [])"

fun str_or :: "string option \<Rightarrow> string \<Rightarrow> string" where
  "str_or None d = d"
| "str_or (Some s) d = (if s \<noteq> [] then s else d)"

text \<open>\<open>sendResponse({ error: ... })\<close> before anything else was done.\<close>

definition refuse :: "string \<Rightarrow> objectStore \<Rightarrow> outcome" where
  "refuse msg s = \<lparr>reply = Some (Error_response msg), caught = None, trace = [], store = s\<rparr>"

text \<open>
  The end of both branches of the \<open>ASK_GEMINI\<close> handler: the logs are read, the
  provider is called, the answer is sent; an error thrown on the way is caught by the
  handler's \<open>catch\<close> and its message is sent.
\<close>

definition read_and_ask :: "(logRecord list \<Rightarrow> (js_error + json) \<times> provider_request list) \<Rightarrow> env \<Rightarrow> string \<Rightarrow> objectStore \<Rightarrow> outcome" where
  "read_and_ask call e p s =
     (case getRequestsByPageLoadId (idb e) p s of
        Inl error \<Rightarrow>
          \<lparr>reply = Some (Error_response (err_message error)), caught = Some error,
           trace = [DbGetAll p], store = s\<rparr>
      | Inr logs \<Rightarrow>
          (case call logs of
             (Inl error, sent) \<Rightarrow>
               \<lparr>reply = Some (Error_response (err_message error)), caught = Some error,
                trace = DbGetAll p # map Fetch sent, store = s\<rparr>
           | (Inr answer, sent) \<Rightarrow>
               \<lparr>reply = Some (Answer answer), caught = None,
                trace = DbGetAll p # map Fetch sent, store = s\<rparr>))"

text \<open>The handler of \<open>ASK_GEMINI\<close> with two providers.\<close>

definition ask :: "env \<Rightarrow> string \<Rightarrow> string \<Rightarrow> objectStore \<Rightarrow> outcome" where
  "ask e p question s =
     (let provider = str_or (apiProvider (sync e)) ''gemini'' in
      if provider = ''gemini'' then
        (if \<not> truthy_str (geminiApiKey (sync e)) then
           refuse ''API key not found. Please set it in the extension settings.'' s
         else
           let key = str_or (geminiApiKey (sync e)) [] in
           if \<not> startsWith key ''AI'' \<or> length key < 10 then
             refuse ''Invalid API key format. Please check your API key in the settings.'' s
           else read_and_ask (\<lambda>logs. callGeminiAPI (net e) key logs question) e p s)
      else if provider = ''openrouter'' then
        (if \<not> truthy_str (openrouterApiKey (sync e)) then
           refuse ''OpenRouter API key not found. Please set it in the extension settings.'' s
         else
           let key = str_or (openrouterApiKey (sync e)) [] in
           read_and_ask (\<lambda>logs. callOpenRouterAPI (net e) key logs question) e p s)
      else \<lparr>reply = None, caught = None, trace = [], store = s\<rparr>)"

text \<open>The handler of \<open>ASK_GEMINI\<close> in src/background.js, which knows one provider.\<close>

definition ask_gemini_only :: "env \<Rightarrow> string \<Rightarrow> string \<Rightarrow> objectStore \<Rightarrow> outcome" where
  "ask_gemini_only e p question s =
     (if \<not> truthy_str (geminiApiKey (sync e)) then
        refuse ''API key not found. Please set it in the extension settings.'' s
      else
        let key = str_or (geminiApiKey (sync e)) [] in
        if \<not> startsWith key ''AI'' \<or> length key < 10 then
          refuse ''Invalid API key format. Please check your API key in the settings.'' s
        else read_and_ask (\<lambda>logs. callGeminiAPI_latest (net e) key logs question) e p s)"

text \<open>
  \<open>chrome.runtime.onMessage.addListener((message, sender, sendResponse) => ...)\<close>.
  The handlers of \<open>CLEAR_ALL_LOGS\<close>, \<open>NEW_PAGE_LOAD\<close>, \<open>INTERCEPTED_REQUEST\<close> and
  \<open>GET_LOGS\<close> are the same text in both versions of the service worker.
\<close>

definition onMessage :: "env \<Rightarrow> message \<Rightarrow> objectStore \<Rightarrow> outcome" where
  "onMessage e message s =
     (case message of
        CLEAR_ALL_LOGS \<Rightarrow>
          (case clearAllRequests (idb e) s of
             (Inr u, s') \<Rightarrow> \<lparr>reply = Some Status_ok, caught = None, trace = [DbClear], store = s'\<rparr>
           | (Inl error, s') \<Rightarrow>
               \<lparr>reply = Some (Error_response (err_message error)), caught = Some error,
                trace = [DbClear], store = s'\<rparr>)
      | DELETE_LOG logId \<Rightarrow>
          (case deleteRequestById (idb e) logId s of
             (Inr u, s') \<Rightarrow> \<lparr>reply = Some Success_true, caught = None, trace = [DbDelete logId], store = s'\<rparr>
           | (Inl error, s') \<Rightarrow>
               \<lparr>reply = Some (Success_false (err_message error)), caught = Some error,
                trace = [DbDelete logId], store = s'\<rparr>)
      | NEW_PAGE_LOAD p \<Rightarrow>
          (case clearAllRequests (idb e) s of
             (Inr u, s') \<Rightarrow> \<lparr>reply = None, caught = None, trace = [DbClear], store = s'\<rparr>
           | (Inl error, s') \<Rightarrow> \<lparr>reply = None, caught = Some error, trace = [DbClear], store = s'\<rparr>)
      | INTERCEPTED_REQUEST m \<Rightarrow>
          (if truthy_str (contentType m) \<and> includes_str (str_or (contentType m) []) ''application/json'' then
             (let d = \<lparr>url = url m, req_method = req_method m, responseBody = responseBody m,
                       contentType = contentType m, timestamp = timestamp m,
                       pageLoadId = pageLoadId m\<rparr>
              in case saveRequest (idb e) d s of
                   (Inr k, s') \<Rightarrow> \<lparr>reply = None, caught = None, trace = [DbAdd d], store = s'\<rparr>
                 | (Inl error, s') \<Rightarrow> \<lparr>reply = None, caught = Some error, trace = [DbAdd d], store = s'\<rparr>)
           else \<lparr>reply = None, caught = None, trace = [], store = s\<rparr>)
      | GET_LOGS p \<Rightarrow>
          (case getRequestsByPageLoadId (idb e) p s of
             Inr logs \<Rightarrow> \<lparr>reply = Some (Logs logs), caught = None, trace = [DbGetAll p], store = s\<rparr>
           | Inl error \<Rightarrow>
               \<lparr>reply = Some (Error_response (err_message error)), caught = Some error,
                trace = [DbGetAll p], store = s\<rparr>)
      | ASK_GEMINI p question \<Rightarrow> ask e p question s
      | OTHER ty \<Rightarrow> \<lparr>reply = None, caught = None, trace = [], store = s\<rparr>)"

text \<open>
  The service worker handles the messages in the order they arrive, each with the
  engine's behaviour and the preferences of its moment.
\<close>

fun run :: "(env \<times> message) list \<Rightarrow> objectStore \<Rightarrow> objectStore" where
  "run [] s = s"
| "run ((e, m) # rest) s = run rest (store (onMessage e m s))"

section \<open>content.js: the bridge\<close>

text \<open>
  A message of the page with \<open>type === 'INTERCEPTED_REQUEST'\<close> is forwarded to the
  service worker as \<open>{...event.data, pageLoadId: pageLoadId}\<close>.
\<close>

definition tag :: "string \<Rightarrow> capture \<Rightarrow> requestData" where
  "tag currentPageLoadId c =
     \<lparr>url = url c, req_method = req_method c, responseBody = responseBody c,
      contentType = contentType c, timestamp = timestamp c, pageLoadId = currentPageLoadId\<rparr>"

definition forward :: "string \<Rightarrow> capture \<Rightarrow> message" where
  "forward currentPageLoadId c = INTERCEPTED_REQUEST (tag currentPageLoadId c)"

section \<open>interceptor.js: the wrapped \<open>fetch\<close>\<close>

text \<open>
  \<open>args[0]\<close> is a \<open>Request\<close> (with its \<open>url\<close> and its \<open>method\<close>), a string or
  \<open>URL\<close> (given by its \<open>toString()\<close>), or \<open>undefined\<close>/\<open>null\<close>;
  \<open>init_method\<close> is \<open>args[1]?.method\<close>.
\<close>

datatype fetch_input = Request_object string string | Url_like string | Nullish

record fetch_args =
  input :: fetch_input
  init_method :: "string option"

text \<open>
  A response as the network delivers it: the \<open>Content-Type\<close> header and what reading
  the body as text gives (the text, or the error of a stream that fails). A
  \<open>Response\<close> object adds \<open>bodyUsed\<close>. Objects live in a heap and are known by their
  index, so that a response and its clone are two objects.
\<close>

record wire_response =
  header_contentType :: "string option"
  body_text :: "js_error + string"

record response_object = wire_response +
  bodyUsed :: bool

type_synonym ref = nat

record page =
  heap :: "response_object list"
  requested :: "fetch_args list"

type_synonym server = "fetch_args \<Rightarrow> js_error + wire_response"

definition body_already_used :: js_error where
  "body_already_used = Err ''TypeError'' ''Response body is already used''"

text \<open>
  The native \<open>fetch\<close>: the request goes out; the promise rejects, or resolves with a
  new response whose body has not been read.
\<close>

definition originalFetch :: "server \<Rightarrow> fetch_args \<Rightarrow> page \<Rightarrow> (js_error + ref) \<times> page" where
  "originalFetch srv args w =
     (case srv args of
        Inl e \<Rightarrow> (Inl e, w\<lparr>requested := requested w @ [args]\<rparr>)
      | Inr r \<Rightarrow>
          (Inr (length (heap w)),
           w\<lparr>heap := heap w @
                [\<lparr>header_contentType = header_contentType r, body_text = body_text r, bodyUsed = False\<rparr>],
             requested := requested w @ [args]\<rparr>))"

text \<open>
  \<open>response.clone()\<close> makes a new object with its own branch of the body and throws
  when the body was already read; \<open>response.text()\<close> reads the body of the object it
  is called on, which is used from then on. (A reference that is not in the heap does
  not exist in the page; both operations throw for it.)
\<close>

definition clone :: "ref \<Rightarrow> page \<Rightarrow> (js_error + ref) \<times> page" where
  "clone r w =
     (if r < length (heap w) \<and> \<not> bodyUsed (heap w ! r)
      then (Inr (length (heap w)), w\<lparr>heap := heap w @ [heap w ! r]\<rparr>)
      else (Inl body_already_used, w))"

definition text_of :: "ref \<Rightarrow> page \<Rightarrow> (js_error + string) \<times> page" where
  "text_of r w =
     (if r < length (heap w) \<and> \<not> bodyUsed (heap w ! r)
      then (body_text (heap w ! r), w\<lparr>heap := (heap w)[r := (heap w ! r)\<lparr>bodyUsed := True\<rparr>]\<rparr>)
      else (Inl body_already_used, w))"

text \<open>
  What the wrapper leaves behind when it returns: the promise of \<open>responseClone.text()\<close>
  with the variables its callbacks close over.
\<close>

record pending =
  p_url :: "string option"
  p_method :: string
  p_response :: ref
  p_clone :: ref
  p_text :: "js_error + string"

text \<open>
  \<open>window.fetch = async function(...args)\<close>, up to \<open>return response\<close>: the value the
  caller's promise settles with, the pending read of the clone, and the page afterwards.
\<close>

definition fetch_wrapper :: "server \<Rightarrow> fetch_args \<Rightarrow> page \<Rightarrow> (js_error + ref) \<times> pending option \<times> page" where
  "fetch_wrapper srv args w =
     (let url0 = (case input args of Request_object u m \<Rightarrow> Some u | Url_like u \<Rightarrow> Some u | Nullish \<Rightarrow> None);
          method0 = (case input args of Request_object u m \<Rightarrow> m | Url_like u \<Rightarrow> str_or (init_method args) ''GET''
                     | Nullish \<Rightarrow> str_or (init_method args) ''GET'')
      in case originalFetch srv args w of
           (Inl e, w1) \<Rightarrow> (Inl e, None, w1)
         | (Inr response, w1) \<Rightarrow>
             (case clone response w1 of
                (Inl e, w2) \<Rightarrow> (Inl e, None, w2)
              | (Inr responseClone, w2) \<Rightarrow>
                  (case text_of responseClone w2 of
                     (read, w3) \<Rightarrow>
                       (Inr response,
                        Some \<lparr>p_url = url0, p_method = method0, p_response = response,
                              p_clone = responseClone, p_text = read\<rparr>,
                        w3))))"

text \<open>
  The callbacks \<open>.then(responseBody => ...)\<close> and \<open>.catch(error => console.error(...))\<close>,
  run when the read has settled, with the flag and the clock of that moment: the messages
  posted to the window, and the error logged. \<open>url.toString()\<close> throws for an
  \<open>undefined\<close> URL; the \<open>catch\<close> receives that error too.
\<close>

definition fetch_settled :: "bool \<Rightarrow> int \<Rightarrow> pending \<Rightarrow> page \<Rightarrow> capture list \<times> js_error option" where
  "fetch_settled isActive now p w =
     (case p_text p of
        Inl error \<Rightarrow> ([], Some error)
      | Inr body \<Rightarrow>
          if isActive then
            (case p_url p of
               None \<Rightarrow> ([], Some (cannot_read ''undefined'' ''toString''))
             | Some u \<Rightarrow>
                 ([\<lparr>url = u, req_method = p_method p, responseBody = body,
                    contentType = header_contentType (heap w ! p_response p), timestamp = now\<rparr>],
                  None))
          else ([], None))"

section \<open>interceptor.js: the wrapped \<open>XMLHttpRequest\<close>\<close>

text \<open>
  An \<open>onload\<close> handler is a function of the page (known by a number) or the hook that
  \<open>send\<close> installs, which remembers the handler it replaced.
\<close>

datatype onload_handler = Page_handler nat | Hook "onload_handler option"

datatype native_call = Native_open string "string option" | Native_send string

record xhr_object =
  requestMethod :: string
  requestUrl :: "string option"
  onload :: "onload_handler option"
  native_calls :: "native_call list"
  responseText :: "js_error + string"
  responseHeader_contentType :: "string option"

text \<open>\<open>XMLHttpRequest.prototype.open\<close> and \<open>send\<close> as patched.\<close>

definition xhr_open :: "string \<Rightarrow> string option \<Rightarrow> xhr_object \<Rightarrow> xhr_object" where
  "xhr_open m u x = x\<lparr>requestMethod := m, requestUrl := u, native_calls := native_calls x @ [Native_open m u]\<rparr>"

definition xhr_send :: "string \<Rightarrow> xhr_object \<Rightarrow> xhr_object" where
  "xhr_send body x = x\<lparr>onload := Some (Hook (onload x)), native_calls := native_calls x @ [Native_send body]\<rparr>"

text \<open>
  What running a handler does: calls of page functions, messages posted, an error
  thrown out of the handler (reading \<open>responseText\<close> throws when \<open>responseType\<close> is
  not text, \<open>toString\<close> of an \<open>undefined\<close> URL throws). A thrown error ends the
  handlers that enclose the one that threw.
\<close>

datatype xhr_effect = Called nat | Posted capture | Threw js_error

fun threw :: "xhr_effect list \<Rightarrow> bool" where
  "threw [] = False"
| "threw (Threw e # rest) = True"
| "threw (x # rest) = threw rest"

fun run_onload :: "bool \<Rightarrow> int \<Rightarrow> xhr_object \<Rightarrow> onload_handler \<Rightarrow> xhr_effect list" where
  "run_onload isActive now x (Page_handler h) = [Called h]"
| "run_onload isActive now x (Hook originalOnload) =
     (let prior = (case originalOnload of None \<Rightarrow> [] | Some f \<Rightarrow> run_onload isActive now x f) in
      if threw prior then prior
      else if isActive then
        (case responseText x of
           Inl e \<Rightarrow> prior @ [Threw e]
         | Inr body \<Rightarrow>
             (case requestUrl x of
                None \<Rightarrow> prior @ [Threw (cannot_read ''undefined'' ''toString'')]
              | Some u \<Rightarrow>
                  prior @ [Posted \<lparr>url = u, req_method = requestMethod x, responseBody = body,
                                     contentType = responseHeader_contentType x, timestamp = now\<rparr>]))
      else prior)"

text \<open>The \<open>load\<close> event runs the handler in \<open>onload\<close>, if there is one.\<close>

definition xhr_load :: "bool \<Rightarrow> int \<Rightarrow> xhr_object \<Rightarrow> xhr_effect list" where
  "xhr_load isActive now x = (case onload x of None \<Rightarrow> [] | Some f \<Rightarrow> run_onload isActive now x f)"

fun posted :: "xhr_effect list \<Rightarrow> capture list" where
  "posted [] = []"
| "posted (Posted c # rest) = c # posted rest"
| "posted (x # rest) = posted rest"

fun called :: "xhr_effect list \<Rightarrow> nat list" where
  "called [] = []"
| "called (Called h # rest) = h # called rest"
| "called (x # rest) = called rest"

section \<open>interceptor.js: the flag \<open>isActive\<close>\<close>

text \<open>
  What happens in the page, as the interceptor sees it: a \<open>message\<close> event (whether
  \<open>event.source === window\<close>, \<open>event.data.type\<close>, and \<open>event.data.isActive\<close> as a
  condition), the settling of a clone's read, the \<open>load\<close> of a request. The flag starts
  as \<open>true\<close>; the listener of \<open>message\<close> holds the one assignment to it.
\<close>

datatype page_event =
    Message bool string bool
  | Fetch_settled pending page int
  | Xhr_loaded xhr_object int

fun on_event :: "page_event \<Rightarrow> bool \<Rightarrow> capture list \<times> bool" where
  "on_event (Message from_window ty v) isActive =
     ([], if from_window \<and> ty = ''GEMINI_INTERCEPTOR_STATE'' then v else isActive)"
| "on_event (Fetch_settled p w now) isActive = (fst (fetch_settled isActive now p w), isActive)"
| "on_event (Xhr_loaded x now) isActive = (posted (xhr_load isActive now x), isActive)"

fun emitted :: "page_event list \<Rightarrow> bool \<Rightarrow> capture list" where
  "emitted [] isActive = []"
| "emitted (ev # rest) isActive = fst (on_event ev isActive) @ emitted rest (snd (on_event ev isActive))"

fun sets_flag :: "page_event \<Rightarrow> bool" where
  "sets_flag (Message from_window ty v) = (from_window \<and> ty = ''GEMINI_INTERCEPTOR_STATE'')"
| "sets_flag ev = False"

section \<open>Notions of the specification\<close>

text \<open>
  The specification's filter, in its own words: the \<open>contentType\<close> is not null and
  contains the substring \<open>application/json\<close>.
\<close>

definition spec_json :: "string option \<Rightarrow> bool" where
  "spec_json ct = (\<exists>c pre post. ct = Some c \<and> c = pre @ ''application/json'' @ post)"

text \<open>The record the store keeps for a request it saved under the key \<open>k\<close>.\<close>

definition stored :: "requestData \<Rightarrow> nat \<Rightarrow> logRecord" where
  "stored d k = \<lparr>url = url d, req_method = req_method d, responseBody = responseBody d,
                 contentType = contentType d, timestamp = timestamp d,
                 pageLoadId = pageLoadId d, rec_id = k\<rparr>"

text \<open>
  A sequence of calls on the store, each with the engine's behaviour at its moment, and
  the keys that the successful \<open>saveRequest\<close> calls among them returned, in the order
  of their completion.
\<close>

datatype store_call = Save requestData | Delete js_number | Clear

fun assigned :: "(engine \<times> store_call) list \<Rightarrow> objectStore \<Rightarrow> nat list" where
  "assigned [] s = []"
| "assigned ((eng, Save d) # rest) s =
     (case saveRequest eng d s of
        (Inr k, s') \<Rightarrow> k # assigned rest s'
      | (Inl e, s') \<Rightarrow> assigned rest s')"
| "assigned ((eng, Delete k) # rest) s = assigned rest (snd (deleteRequestById eng k s))"
| "assigned ((eng, Clear) # rest) s = assigned rest (snd (clearAllRequests eng s))"

text \<open>
  Captures forwarded by the content script of the page load \<open>p\<close>, each with the
  service worker's environment at its arrival.
\<close>

definition puts :: "string \<Rightarrow> (env \<times> capture) list \<Rightarrow> (env \<times> message) list" where
  "puts p caps = map (\<lambda>(e, c). (e, forward p c)) caps"

section \<open>Scenarios\<close>

text \<open>
  Concrete inputs: an engine that works, no preferences stored, a network that is down;
  a JSON response and an HTML response as the interceptor captures them.
\<close>

definition offline :: network where
  "offline = (\<lambda>r. Inl (Err ''TypeError'' ''Failed to fetch''))"

definition scenario_env :: env where
  "scenario_env =
     \<lparr>idb = Healthy,
      sync = \<lparr>apiProvider = None, geminiApiKey = None, openrouterApiKey = None\<rparr>,
      net = offline\<rparr>"

definition scenario_json :: capture where
  "scenario_json =
     \<lparr>url = ''https://example.org/api/a'', req_method = ''GET'', responseBody = ''{\"a\":1}'',
      contentType = Some ''application/json; charset=utf-8'', timestamp = 1700000000123\<rparr>"

definition scenario_html :: capture where
  "scenario_html =
     \<lparr>url = ''https://example.org/'', req_method = ''GET'', responseBody = ''<html></html>'',
      contentType = Some ''text/html'', timestamp = 1700000000456\<rparr>"

definition with_prefs :: "string option \<Rightarrow> string option \<Rightarrow> string option \<Rightarrow> env" where
  "with_prefs provider gemini_key openrouter_key =
     scenario_env\<lparr>sync := \<lparr>apiProvider = provider, geminiApiKey = gemini_key, openrouterApiKey = openrouter_key\<rparr>\<rparr>"

text \<open>A provider behind a gateway that answers 502 with an HTML page.\<close>

definition bad_gateway :: network where
  "bad_gateway = (\<lambda>r. Inr \<lparr>ok = False, statusText = ''Bad Gateway'',
                              json_body = Inl (Err ''SyntaxError'' ''Unexpected token < in JSON at position 0'')\<rparr>)"

text \<open>
  A page that has already fetched and read one response (object 0, its clone is
  object 1); a server whose JSON response breaks off
  while the body is read; a call \<open>fetch('https://example.org/api/a')\<close>.
\<close>

definition scenario_page :: page where
  "scenario_page =
     \<lparr>heap = [\<lparr>header_contentType = Some ''text/html'', body_text = Inr ''<html></html>'', bodyUsed = True\<rparr>,
              \<lparr>header_contentType = Some ''text/html'', body_text = Inr ''<html></html>'', bodyUsed = True\<rparr>],
      requested = [\<lparr>input = Url_like ''https://example.org/'', init_method = None\<rparr>]\<rparr>"

definition broken_body :: server where
  "broken_body = (\<lambda>a. Inr \<lparr>header_contentType = Some ''application/json'',
                              body_text = Inl (Err ''TypeError'' ''network error'')\<rparr>)"

definition scenario_call :: fetch_args where
  "scenario_call = \<lparr>input = Url_like ''https://example.org/api/a'', init_method = None\<rparr>"

text \<open>
  A request \<open>POST /api/b\<close> of the page with its own \<open>onload\<close> handler (number 3),
  after \<open>open\<close> and \<open>send\<close>; the pending read of a \<open>fetch\<close> of the same page; and
  events of the page among which no message arms the interceptor.
\<close>

definition scenario_xhr :: xhr_object where
  "scenario_xhr =
     xhr_send ''{}''
       (xhr_open ''POST'' (Some ''/api/b'')
          \<lparr>requestMethod = [], requestUrl = None, onload = Some (Page_handler 3), native_calls = [],
           responseText = Inr ''{\"b\":2}'', responseHeader_contentType = Some ''application/json''\<rparr>)"

definition scenario_pending :: pending where
  "scenario_pending =
     \<lparr>p_url = Some ''https://example.org/'', p_method = ''GET'', p_response = 0, p_clone = 1,
      p_text = Inr ''<html></html>''\<rparr>"

definition scenario_events :: "page_event list" where
  "scenario_events =
     [Message True ''GEMINI_INTERCEPTOR_STATE'' False,
      Message False ''GEMINI_INTERCEPTOR_STATE'' True,
      Fetch_settled scenario_pending scenario_page 1700000000789,
      Message True ''INTERCEPTED_REQUEST'' True,
      Xhr_loaded scenario_xhr 1700000000790]"

section \<open>Verified properties\<close>

subsection \<open>Strings and the store\<close>

lemma startsWith_iff: "startsWith s p \<longleftrightarrow> (\<exists>post. s = p @ post)"
  by (induction s p rule: startsWith.induct) auto

lemma includes_str_iff: "includes_str s p \<longleftrightarrow> (\<exists>pre post. s = pre @ p @ post)"
proof (induction s)
  case Nil
  then show ?case by auto
next
  case (Cons c cs)
  show ?case
  proof
    assume "includes_str (c # cs) p"
    then consider "startsWith (c # cs) p" | "includes_str cs p" by auto
    then show "\<exists>pre post. c # cs = pre @ p @ post"
    proof cases
      case 1
      then obtain post where "c # cs = p @ post" using startsWith_iff by blast
      then have "c # cs = [] @ p @ post" by simp
      then show ?thesis by blast
    next
      case 2
      then obtain pre post where "cs = pre @ p @ post" using Cons.IH by blast
      then have "c # cs = (c # pre) @ p @ post" by simp
      then show ?thesis by blast
    qed
  next
    assume "\<exists>pre post. c # cs = pre @ p @ post"
    then obtain pre post where eq: "c # cs = pre @ p @ post" by blast
    show "includes_str (c # cs) p"
    proof (cases pre)
      case Nil
      with eq have "startsWith (c # cs) p" using startsWith_iff by auto
      then show ?thesis by simp
    next
      case (Cons a pre')
      with eq have "cs = pre' @ p @ post" by simp
      then have "includes_str cs p" using Cons.IH by blast
      then show ?thesis by simp
    qed
  qed
qed

lemma filter_iff: "truthy_str ct \<and> includes_str (str_or ct []) ''application/json'' \<longleftrightarrow> spec_json ct"
proof (cases ct)
  case None
  then show ?thesis by (simp add: spec_json_def)
next
  case (Some c)
  have "includes_str c ''application/json'' \<Longrightarrow> c \<noteq> []" by (cases c) auto
  with Some show ?thesis
    by (auto simp: spec_json_def includes_str_iff)
qed

lemma saveRequest_cases:
  "saveRequest eng d s =
     (if eng = Healthy \<and> keyGenerator s \<le> 2 ^ 53
      then (Inr (keyGenerator s), s\<lparr>records := records s @ [stored d (keyGenerator s)], keyGenerator := Suc (keyGenerator s)\<rparr>)
      else (Inl (case eng of Healthy \<Rightarrow> ConstraintError | OpenFails e \<Rightarrow> e | RequestFails e \<Rightarrow> e), s))"
  by (cases eng) (auto simp: saveRequest_def stored_def)

lemma saveRequest_Inr:
  "saveRequest eng d s = (Inr k, s') \<Longrightarrow>
     k = keyGenerator s \<and> keyGenerator s' = Suc k \<and> records s' = records s @ [stored d k]"
  by (auto simp: saveRequest_cases split: if_splits)

lemma saveRequest_Inl: "saveRequest eng d s = (Inl e, s') \<Longrightarrow> s' = s"
  by (auto simp: saveRequest_cases split: if_splits)

lemma rebuild_requestData:
  "\<lparr>url = url m, req_method = req_method m, responseBody = responseBody m, contentType = contentType m,
    timestamp = timestamp m, pageLoadId = pageLoadId (m::requestData)\<rparr> = m"
  by simp

subsection \<open>The filter of the store\<close>

text \<open>The comparison is exact: another capitalisation, \<open>null\<close> and the empty string fail.\<close>

lemma filter_is_case_sensitive:
  "\<not> spec_json (Some ''Application/JSON'') \<and> \<not> spec_json None \<and> \<not> spec_json (Some [])"
  unfolding filter_iff [symmetric] by simp

text \<open>
  Claim C1. The handler of \<open>INTERCEPTED_REQUEST\<close> calls \<open>saveRequest\<close> exactly when
  the \<open>contentType\<close> of the exchange is not null and contains the substring
  \<open>application/json\<close> (compared code unit by code unit, so case-sensitively); on an
  engine that accepts the write the record is then appended under the next key. Every
  other exchange is dropped: nothing is sent, no error is caught or logged, no call is
  made on the store, and the store is what it was.
\<close>

theorem filter_correctness:
  "(trace (onMessage e (INTERCEPTED_REQUEST m) s) = [DbAdd m] \<longleftrightarrow> spec_json (contentType m)) \<and>
   (idb e = Healthy \<and> keyGenerator s \<le> 2 ^ 53 \<longrightarrow>
      (records (store (onMessage e (INTERCEPTED_REQUEST m) s)) \<noteq> records s \<longleftrightarrow> spec_json (contentType m))) \<and>
   (spec_json (contentType m) \<and> idb e = Healthy \<and> keyGenerator s \<le> 2 ^ 53 \<longrightarrow>
      store (onMessage e (INTERCEPTED_REQUEST m) s) =
        s\<lparr>records := records s @ [stored m (keyGenerator s)], keyGenerator := Suc (keyGenerator s)\<rparr>) \<and>
   (\<not> spec_json (contentType m) \<longrightarrow>
      onMessage e (INTERCEPTED_REQUEST m) s = \<lparr>reply = None, caught = None, trace = [], store = s\<rparr>)"
proof -
  let ?pass = "truthy_str (contentType m) \<and> includes_str (str_or (contentType m) []) ''application/json''"
  have pass: "?pass \<longleftrightarrow> spec_json (contentType m)" by (rule filter_iff)
  have drop: "\<not> ?pass \<Longrightarrow> onMessage e (INTERCEPTED_REQUEST m) s = \<lparr>reply = None, caught = None, trace = [], store = s\<rparr>"
    by (cases "truthy_str (contentType m)") (simp_all add: onMessage_def)
  have keep: "?pass \<Longrightarrow> onMessage e (INTERCEPTED_REQUEST m) s =
      (case saveRequest (idb e) m s of
         (Inr k, s') \<Rightarrow> \<lparr>reply = None, caught = None, trace = [DbAdd m], store = s'\<rparr>
       | (Inl error, s') \<Rightarrow> \<lparr>reply = None, caught = Some error, trace = [DbAdd m], store = s'\<rparr>)"
    by (simp add: onMessage_def Let_def rebuild_requestData)
  have tr: "?pass \<Longrightarrow> trace (onMessage e (INTERCEPTED_REQUEST m) s) = [DbAdd m]"
    by (simp add: keep saveRequest_cases)
  have st: "?pass \<Longrightarrow> idb e = Healthy \<Longrightarrow> keyGenerator s \<le> 2 ^ 53 \<Longrightarrow>
      store (onMessage e (INTERCEPTED_REQUEST m) s) =
        s\<lparr>records := records s @ [stored m (keyGenerator s)], keyGenerator := Suc (keyGenerator s)\<rparr>"
    by (simp add: keep saveRequest_cases)
  have ch: "idb e = Healthy \<Longrightarrow> keyGenerator s \<le> 2 ^ 53 \<Longrightarrow>
      (records (store (onMessage e (INTERCEPTED_REQUEST m) s)) \<noteq> records s \<longleftrightarrow> ?pass)"
    using st drop by (cases ?pass) simp_all
  show ?thesis using pass drop tr st ch by auto
qed

theorem filter_correctness_witness:
  "spec_json (contentType (tag ''1700000000000'' scenario_json)) \<and>
   idb scenario_env = Healthy \<and> keyGenerator createObjectStore \<le> 2 ^ 53 \<and>
   trace (onMessage scenario_env (forward ''1700000000000'' scenario_json) createObjectStore) =
     [DbAdd (tag ''1700000000000'' scenario_json)] \<and>
   store (onMessage scenario_env (forward ''1700000000000'' scenario_json) createObjectStore) =
     \<lparr>records = [stored (tag ''1700000000000'' scenario_json) 1], keyGenerator = 2\<rparr> \<and>
   \<not> spec_json (contentType (tag ''1700000000000'' scenario_html)) \<and>
   onMessage scenario_env (forward ''1700000000000'' scenario_html) createObjectStore =
     \<lparr>reply = None, caught = None, trace = [], store = createObjectStore\<rparr>"
proof -
  have j: "spec_json (contentType (tag ''1700000000000'' scenario_json))"
    unfolding filter_iff [symmetric] by (simp add: tag_def scenario_json_def)
  have h: "\<not> spec_json (contentType (tag ''1700000000000'' scenario_html))"
    unfolding filter_iff [symmetric] by (simp add: tag_def scenario_html_def)
  have g: "idb scenario_env = Healthy" "keyGenerator createObjectStore \<le> 2 ^ 53"
    by (simp_all add: scenario_env_def createObjectStore_def)
  show ?thesis
    using filter_correctness [of scenario_env "tag ''1700000000000'' scenario_json" createObjectStore]
      filter_correctness [of scenario_env "tag ''1700000000000'' scenario_html" createObjectStore]
      j h g
    by (simp add: forward_def createObjectStore_def)
qed

subsection \<open>Sessions\<close>

lemma run_append: "run (xs @ ys) s = run ys (run xs s)"
  by (induction xs s rule: run.induct) simp_all

lemma forward_store:
  "store (onMessage e (forward p c) s) = s \<or>
   store (onMessage e (forward p c) s) =
     s\<lparr>records := records s @ [stored (tag p c) (keyGenerator s)], keyGenerator := Suc (keyGenerator s)\<rparr>"
  by (simp add: forward_def onMessage_def Let_def rebuild_requestData saveRequest_cases)

lemma puts_tagged:
  "\<forall>r \<in> set (records s). pageLoadId r = p \<Longrightarrow>
   \<forall>r \<in> set (records (run (puts p caps) s)). pageLoadId r = p"
proof (induction caps arbitrary: s)
  case Nil
  then show ?case by (simp add: puts_def)
next
  case (Cons ec caps)
  obtain e c where ec: "ec = (e, c)" by (cases ec)
  let ?s = "store (onMessage e (forward p c) s)"
  have "\<forall>r \<in> set (records ?s). pageLoadId r = p"
    using forward_store [of e p c s] Cons.prems by (auto simp: stored_def tag_def)
  then have "\<forall>r \<in> set (records (run (puts p caps) ?s)). pageLoadId r = p"
    by (rule Cons.IH)
  then show ?case by (simp add: ec puts_def)
qed

lemma new_page_load_clears:
  "idb e = Healthy \<Longrightarrow> store (onMessage e (NEW_PAGE_LOAD p) s) = s\<lparr>records := []\<rparr>"
  by (simp add: onMessage_def clearAllRequests_def)

lemma query_filter: "getRequestsByPageLoadId Healthy p s = Inr (filter (\<lambda>r. pageLoadId r = p) (records s))"
  by (simp add: getRequestsByPageLoadId_def)

text \<open>
  Claim C2. Let any captures be stored under the page load \<open>s1\<close>, in any store, and let
  \<open>NEW_PAGE_LOAD\<close> of \<open>s2\<close> arrive while the engine works. Then the store holds no
  record: the logs of \<open>s1\<close> (and of \<open>s2\<close>) are the empty list. After any captures
  forwarded under \<open>s2\<close> since, every record in the store is tagged \<open>s2\<close>: the logs
  of \<open>s2\<close> are all the records, and the logs of \<open>s1\<close> are still empty.
\<close>

theorem session_isolation:
  "idb e2 = Healthy \<longrightarrow>
     (let cleared = run (puts s1 before @ [(e2, NEW_PAGE_LOAD s2)]) s;
          later = run (puts s2 after) cleared
      in records cleared = [] \<and>
         getRequestsByPageLoadId Healthy s1 cleared = Inr [] \<and>
         getRequestsByPageLoadId Healthy s2 cleared = Inr [] \<and>
         reply (onMessage (e\<lparr>idb := Healthy\<rparr>) (GET_LOGS s1) cleared) = Some (Logs []) \<and>
         (\<forall>r \<in> set (records later). pageLoadId r = s2) \<and>
         (s1 \<noteq> s2 \<longrightarrow> getRequestsByPageLoadId Healthy s1 later = Inr []) \<and>
         getRequestsByPageLoadId Healthy s2 later = Inr (records later))"
proof
  assume h: "idb e2 = Healthy"
  define cleared where "cleared = run (puts s1 before @ [(e2, NEW_PAGE_LOAD s2)]) s"
  define later where "later = run (puts s2 after) cleared"
  have c: "records cleared = []"
    by (simp add: cleared_def run_append new_page_load_clears [OF h])
  then have t: "\<forall>r \<in> set (records later). pageLoadId r = s2"
    unfolding later_def by (intro puts_tagged) simp
  have q1: "getRequestsByPageLoadId Healthy p cleared = Inr []" for p
    by (simp add: query_filter c)
  have g: "reply (onMessage (e\<lparr>idb := Healthy\<rparr>) (GET_LOGS s1) cleared) = Some (Logs [])"
    by (simp add: onMessage_def q1)
  have q2: "s1 \<noteq> s2 \<longrightarrow> getRequestsByPageLoadId Healthy s1 later = Inr []"
    using t by (auto simp: query_filter filter_empty_conv)
  have q3: "getRequestsByPageLoadId Healthy s2 later = Inr (records later)"
    using t by (simp add: query_filter)
  show "let cleared = run (puts s1 before @ [(e2, NEW_PAGE_LOAD s2)]) s;
          later = run (puts s2 after) cleared
      in records cleared = [] \<and>
         getRequestsByPageLoadId Healthy s1 cleared = Inr [] \<and>
         getRequestsByPageLoadId Healthy s2 cleared = Inr [] \<and>
         reply (onMessage (e\<lparr>idb := Healthy\<rparr>) (GET_LOGS s1) cleared) = Some (Logs []) \<and>
         (\<forall>r \<in> set (records later). pageLoadId r = s2) \<and>
         (s1 \<noteq> s2 \<longrightarrow> getRequestsByPageLoadId Healthy s1 later = Inr []) \<and>
         getRequestsByPageLoadId Healthy s2 later = Inr (records later)"
    using c t q1 g q2 q3 unfolding Let_def cleared_def [symmetric] later_def [symmetric] by blast
qed


theorem session_isolation_witness:
  "idb scenario_env = Healthy \<and> ''1700000000000'' \<noteq> ''1700000009999'' \<and>
   records (run (puts ''1700000000000'' [(scenario_env, scenario_json), (scenario_env, scenario_html)] @
                 [(scenario_env, NEW_PAGE_LOAD ''1700000009999'')]) createObjectStore) = [] \<and>
   getRequestsByPageLoadId Healthy ''1700000000000''
     (run (puts ''1700000009999'' [(scenario_env, scenario_json)])
        (run (puts ''1700000000000'' [(scenario_env, scenario_json), (scenario_env, scenario_html)] @
              [(scenario_env, NEW_PAGE_LOAD ''1700000009999'')]) createObjectStore)) = Inr [] \<and>
   records (run (puts ''1700000009999'' [(scenario_env, scenario_json)])
        (run (puts ''1700000000000'' [(scenario_env, scenario_json), (scenario_env, scenario_html)] @
              [(scenario_env, NEW_PAGE_LOAD ''1700000009999'')]) createObjectStore)) =
     [stored (tag ''1700000009999'' scenario_json) 2]"
proof -
  have h: "idb scenario_env = Healthy" by (simp add: scenario_env_def)
  have n: "''1700000000000'' \<noteq> ''1700000009999''" by simp
  have j: "truthy_str (contentType scenario_json) \<and> includes_str (str_or (contentType scenario_json) []) ''application/json''"
    by (simp add: scenario_json_def)
  have k: "\<not> (truthy_str (contentType scenario_html) \<and> includes_str (str_or (contentType scenario_html) []) ''application/json'')"
    by (simp add: scenario_html_def)
  have r: "records (run (puts ''1700000009999'' [(scenario_env, scenario_json)])
        (run (puts ''1700000000000'' [(scenario_env, scenario_json), (scenario_env, scenario_html)] @
              [(scenario_env, NEW_PAGE_LOAD ''1700000009999'')]) createObjectStore)) =
     [stored (tag ''1700000009999'' scenario_json) 2]"
    using j k
    by (simp add: puts_def forward_def onMessage_def Let_def tag_def rebuild_requestData saveRequest_cases
        clearAllRequests_def h createObjectStore_def stored_def)
  show ?thesis
    using session_isolation [of scenario_env "''1700000000000''"
        "[(scenario_env, scenario_json), (scenario_env, scenario_html)]" "''1700000009999''"
        createObjectStore "[(scenario_env, scenario_json)]" scenario_env] h n r
    unfolding Let_def by blast
qed

subsection \<open>The wrapped fetch\<close>

lemma originalFetch_cases:
  "originalFetch srv args w =
     (case srv args of
        Inl e \<Rightarrow> (Inl e, w\<lparr>requested := requested w @ [args]\<rparr>)
      | Inr r \<Rightarrow>
          (Inr (length (heap w)),
           w\<lparr>heap := heap w @ [\<lparr>header_contentType = header_contentType r, body_text = body_text r, bodyUsed = False\<rparr>],
             requested := requested w @ [args]\<rparr>))"
  by (simp add: originalFetch_def)

lemma fetch_wrapper_rejected:
  "srv args = Inl e \<Longrightarrow>
   fetch_wrapper srv args w = (Inl e, None, w\<lparr>requested := requested w @ [args]\<rparr>)"
  by (simp add: fetch_wrapper_def originalFetch_def)

lemma fetch_wrapper_resolved:
  "srv args = Inr r \<Longrightarrow>
   fetch_wrapper srv args w =
     (Inr (length (heap w)),
      Some \<lparr>p_url = (case input args of Request_object u m \<Rightarrow> Some u | Url_like u \<Rightarrow> Some u | Nullish \<Rightarrow> None),
            p_method = (case input args of Request_object u m \<Rightarrow> m | Url_like u \<Rightarrow> str_or (init_method args) ''GET''
                        | Nullish \<Rightarrow> str_or (init_method args) ''GET''),
            p_response = length (heap w), p_clone = Suc (length (heap w)), p_text = body_text r\<rparr>,
      w\<lparr>heap := heap w @
          [\<lparr>header_contentType = header_contentType r, body_text = body_text r, bodyUsed = False\<rparr>,
           \<lparr>header_contentType = header_contentType r, body_text = body_text r, bodyUsed = True\<rparr>],
        requested := requested w @ [args]\<rparr>)"
  by (simp add: fetch_wrapper_def originalFetch_def clone_def text_of_def Let_def nth_append list_update_append)

text \<open>
  Claim C3. For every call of the wrapped \<open>fetch\<close>: the original \<open>fetch\<close> is called
  once with the caller's arguments; the wrapper settles as the original does, with the
  same response object or the same rejection; the objects the page already had are not
  touched; the response returned is in the state the original left it in, its body not
  read, while the body is read from another object, the clone; and when reading the clone
  fails, the callbacks post nothing and log the error, which reaches nobody else.
\<close>

theorem fetch_passthrough:
  "requested (snd (snd (fetch_wrapper srv args w))) = requested w @ [args] \<and>
   fst (fetch_wrapper srv args w) = fst (originalFetch srv args w) \<and>
   (\<forall>i < length (heap w). heap (snd (snd (fetch_wrapper srv args w))) ! i = heap w ! i) \<and>
   (\<forall>r. fst (fetch_wrapper srv args w) = Inr r \<longrightarrow>
      heap (snd (snd (fetch_wrapper srv args w))) ! r = heap (snd (originalFetch srv args w)) ! r \<and>
      \<not> bodyUsed (heap (snd (snd (fetch_wrapper srv args w))) ! r) \<and>
      (\<exists>p. fst (snd (fetch_wrapper srv args w)) = Some p \<and> p_response p = r \<and> p_clone p \<noteq> r \<and>
           bodyUsed (heap (snd (snd (fetch_wrapper srv args w))) ! p_clone p) \<and>
           p_text p = body_text (heap (snd (originalFetch srv args w)) ! r))) \<and>
   (\<forall>p e. p_text p = Inl e \<longrightarrow> fetch_settled isActive now p w' = ([], Some e))"
proof (cases "srv args")
  case (Inl e)
  show ?thesis
    by (simp add: fetch_wrapper_rejected [where srv = srv and args = args, OF Inl] originalFetch_cases Inl fetch_settled_def)
next
  case (Inr r)
  show ?thesis
    by (simp add: fetch_wrapper_resolved [where srv = srv and args = args, OF Inr] originalFetch_cases Inr fetch_settled_def nth_append)
qed

theorem fetch_passthrough_witness:
  "requested (snd (snd (fetch_wrapper broken_body scenario_call scenario_page))) =
     requested scenario_page @ [scenario_call] \<and>
   (0::nat) < length (heap scenario_page) \<and>
   heap (snd (snd (fetch_wrapper broken_body scenario_call scenario_page))) ! 0 = heap scenario_page ! 0 \<and>
   fst (fetch_wrapper broken_body scenario_call scenario_page) = Inr 2 \<and>
   fst (originalFetch broken_body scenario_call scenario_page) = Inr 2 \<and>
   \<not> bodyUsed (heap (snd (snd (fetch_wrapper broken_body scenario_call scenario_page))) ! 2) \<and>
   (\<exists>p. fst (snd (fetch_wrapper broken_body scenario_call scenario_page)) = Some p \<and>
        p_response p = 2 \<and> p_clone p \<noteq> 2 \<and> p_text p = Inl (Err ''TypeError'' ''network error'') \<and>
        fetch_settled True 1700000000789 p (snd (snd (fetch_wrapper broken_body scenario_call scenario_page))) =
          ([], Some (Err ''TypeError'' ''network error'')))"
proof -
  let ?out = "fetch_wrapper broken_body scenario_call scenario_page"
  have r: "fst ?out = Inr 2"
    by (simp add: fetch_wrapper_def originalFetch_def clone_def text_of_def broken_body_def scenario_page_def)
  have l: "(0::nat) < length (heap scenario_page)" by (simp add: scenario_page_def)
  have b: "body_text (heap (snd (originalFetch broken_body scenario_call scenario_page)) ! 2) =
      Inl (Err ''TypeError'' ''network error'')"
    by (simp add: originalFetch_def broken_body_def scenario_page_def)
  note t = fetch_passthrough [where srv = broken_body and args = scenario_call and w = scenario_page
      and isActive = True and now = 1700000000789 and w' = "snd (snd ?out)"]
  from t have 1: "requested (snd (snd ?out)) = requested scenario_page @ [scenario_call]" by blast
  from t l have 2: "heap (snd (snd ?out)) ! 0 = heap scenario_page ! 0" by blast
  from t r have 3: "fst (originalFetch broken_body scenario_call scenario_page) = Inr 2" by simp
  from t r have 4: "\<not> bodyUsed (heap (snd (snd ?out)) ! 2)" by blast
  from t r obtain p where p: "fst (snd ?out) = Some p" "p_response p = 2" "p_clone p \<noteq> 2"
      "p_text p = body_text (heap (snd (originalFetch broken_body scenario_call scenario_page)) ! 2)"
    by blast
  from p b have 5: "p_text p = Inl (Err ''TypeError'' ''network error'')" by simp
  from t 5 have 6: "fetch_settled True 1700000000789 p (snd (snd ?out)) = ([], Some (Err ''TypeError'' ''network error''))"
    by blast
  from 1 l 2 r 3 4 p 5 6 show ?thesis by blast
qed

subsection \<open>The flag of the interceptor\<close>

lemma called_snoc:
  "called (ys @ [Threw e]) = called ys" "called (ys @ [Posted c]) = called ys"
  by (induction ys rule: called.induct) simp_all

lemma hook_unarmed:
  "run_onload False now x (Hook orig) = (case orig of None \<Rightarrow> [] | Some f \<Rightarrow> run_onload False now x f)"
  by (simp add: Let_def)

lemma hook_called:
  "called (run_onload a now x (Hook orig)) = called (case orig of None \<Rightarrow> [] | Some f \<Rightarrow> run_onload a now x f)"
proof -
  define prior where "prior = (case orig of None \<Rightarrow> [] | Some f \<Rightarrow> run_onload a now x f)"
  have "run_onload a now x (Hook orig) =
      (if threw prior then prior
       else if a then
         (case responseText x of
            Inl e \<Rightarrow> prior @ [Threw e]
          | Inr body \<Rightarrow>
              (case requestUrl x of
                 None \<Rightarrow> prior @ [Threw (cannot_read ''undefined'' ''toString'')]
               | Some u \<Rightarrow>
                   prior @ [Posted \<lparr>url = u, req_method = requestMethod x, responseBody = body,
                                      contentType = responseHeader_contentType x, timestamp = now\<rparr>]))
       else prior)"
    unfolding prior_def by (simp only: run_onload.simps Let_def)
  then have "called (run_onload a now x (Hook orig)) = called prior"
    by (cases "responseText x"; cases "requestUrl x") (simp_all add: called_snoc)
  then show ?thesis by (simp only: prior_def)
qed

lemma run_onload_unarmed:
  "posted (run_onload False now x f) = [] \<and> \<not> threw (run_onload False now x f) \<and>
   called (run_onload False now x f) = called (run_onload a now x f)"
proof (induction f)
  case (Page_handler h)
  show ?case by simp
next
  case (Hook orig)
  show ?case
  proof (cases orig)
    case None
    show ?thesis unfolding hook_unarmed hook_called None by simp
  next
    case (Some g)
    have ih: "posted (run_onload False now x g) = [] \<and> \<not> threw (run_onload False now x g) \<and>
      called (run_onload False now x g) = called (run_onload a now x g)"
      using Hook Some by simp
    show ?thesis unfolding hook_unarmed hook_called Some using ih by simp
  qed
qed


lemma on_event_unarmed:
  "ev \<noteq> Message True ''GEMINI_INTERCEPTOR_STATE'' True \<Longrightarrow> on_event ev False = ([], False)"
proof (cases ev)
  case (Message from_window ty v)
  assume "ev \<noteq> Message True ''GEMINI_INTERCEPTOR_STATE'' True"
  with Message show ?thesis by auto
next
  case (Fetch_settled p w now)
  then show ?thesis by (simp add: fetch_settled_def split: sum.split)
next
  case (Xhr_loaded x now)
  have "posted (xhr_load False now x) = []"
    using run_onload_unarmed [of now x] by (simp add: xhr_load_def split: option.split)
  with Xhr_loaded show ?thesis by simp
qed

lemma emitted_unarmed:
  "\<forall>ev \<in> set evs. ev \<noteq> Message True ''GEMINI_INTERCEPTOR_STATE'' True \<Longrightarrow> emitted evs False = []"
  by (induction evs) (simp_all add: on_event_unarmed)

lemma flag_changes: "snd (on_event ev a) \<noteq> a \<Longrightarrow> sets_flag ev"
  by (cases ev) (auto split: if_splits)

text \<open>
  Claim C4. While \<open>isActive\<close> is false, the callbacks of the wrapped \<open>fetch\<close> post
  nothing, and the \<open>onload\<close> hook of the wrapped \<open>XMLHttpRequest\<close> posts nothing and
  throws nothing, while it calls the page's own handler as it does when the flag is
  true; \<open>open\<close> and \<open>send\<close> reach the native methods with their arguments, and the
  wrapped \<open>fetch\<close> settles as the native one, neither reading the flag. No event of
  the page makes the interceptor emit a capture while the flag is false; the flag changes
  only in a \<open>GEMINI_INTERCEPTOR_STATE\<close> message of the window itself; and a sequence
  of events without such a message that arms it emits nothing from an unarmed start.
\<close>

theorem unarmed_silence:
  "fst (fetch_settled False now p w) = [] \<and>
   posted (xhr_load False now x) = [] \<and>
   \<not> threw (xhr_load False now x) \<and>
   called (xhr_load False now x) = called (xhr_load a now x) \<and>
   native_calls (xhr_send body (xhr_open m u x)) = native_calls x @ [Native_open m u, Native_send body] \<and>
   fst (fetch_wrapper srv args w) = fst (originalFetch srv args w) \<and>
   fst (on_event ev False) = [] \<and>
   (snd (on_event ev a) \<noteq> a \<longrightarrow> sets_flag ev) \<and>
   ((\<forall>ev \<in> set evs. ev \<noteq> Message True ''GEMINI_INTERCEPTOR_STATE'' True) \<longrightarrow> emitted evs False = [])"
proof -
  have 1: "fst (fetch_settled False now p w) = []"
    by (simp add: fetch_settled_def split: sum.split)
  have x: "posted (xhr_load False now x) = [] \<and> \<not> threw (xhr_load False now x) \<and>
      called (xhr_load False now x) = called (xhr_load a now x)"
    using run_onload_unarmed [of now x] by (simp add: xhr_load_def split: option.split)
  have 5: "native_calls (xhr_send body (xhr_open m u x)) = native_calls x @ [Native_open m u, Native_send body]"
    by (simp add: xhr_send_def xhr_open_def)
  have 6: "fst (fetch_wrapper srv args w) = fst (originalFetch srv args w)"
    by (cases "srv args")
      (simp_all add: fetch_wrapper_rejected [where srv = srv and args = args]
        fetch_wrapper_resolved [where srv = srv and args = args] originalFetch_cases)
  have 7: "fst (on_event ev False) = []"
  proof (cases "ev = Message True ''GEMINI_INTERCEPTOR_STATE'' True")
    case True
    then show ?thesis by simp
  next
    case False
    then show ?thesis by (simp add: on_event_unarmed)
  qed
  have 8: "snd (on_event ev a) \<noteq> a \<longrightarrow> sets_flag ev"
    using flag_changes by blast
  have 9: "(\<forall>ev \<in> set evs. ev \<noteq> Message True ''GEMINI_INTERCEPTOR_STATE'' True) \<longrightarrow> emitted evs False = []"
    using emitted_unarmed by blast
  from 1 x 5 6 7 8 9 show ?thesis by blast
qed

theorem unarmed_silence_witness:
  "emitted scenario_events False = [] \<and>
   posted (xhr_load False 1700000000790 scenario_xhr) = [] \<and>
   called (xhr_load False 1700000000790 scenario_xhr) = [3] \<and>
   called (xhr_load True 1700000000790 scenario_xhr) = [3] \<and>
   snd (on_event (Message True ''GEMINI_INTERCEPTOR_STATE'' True) False) \<noteq> False \<and>
   sets_flag (Message True ''GEMINI_INTERCEPTOR_STATE'' True)"
proof -
  have n: "\<forall>ev \<in> set scenario_events. ev \<noteq> Message True ''GEMINI_INTERCEPTOR_STATE'' True"
    by (simp add: scenario_events_def)
  have c: "called (xhr_load True 1700000000790 scenario_xhr) = [3]"
    by (simp add: xhr_load_def scenario_xhr_def xhr_send_def xhr_open_def Let_def)
  have f: "snd (on_event (Message True ''GEMINI_INTERCEPTOR_STATE'' True) False) \<noteq> False"
    by simp
  note t = unarmed_silence [where evs = scenario_events and x = scenario_xhr and now = 1700000000790
      and a = False and ev = "Message True ''GEMINI_INTERCEPTOR_STATE'' True"]
  note u = unarmed_silence [where x = scenario_xhr and now = 1700000000790 and a = True]
  from t n have 1: "emitted scenario_events False = []" by blast
  from t have 2: "posted (xhr_load False 1700000000790 scenario_xhr) = []" by blast
  from u c have 3: "called (xhr_load False 1700000000790 scenario_xhr) = [3]" by simp
  from t f have 4: "sets_flag (Message True ''GEMINI_INTERCEPTOR_STATE'' True)" by blast
  from 1 2 3 c f 4 show ?thesis by blast
qed

subsection \<open>Asking the provider\<close>

lemma read_and_ask_trace: "\<exists>rest. trace (read_and_ask call e p s) = DbGetAll p # rest"
  by (simp add: read_and_ask_def split: sum.split prod.split)

lemma ask_gemini:
  "str_or (apiProvider (sync e)) ''gemini'' = ''gemini'' \<Longrightarrow>
   ask e p q s =
     (if \<not> truthy_str (geminiApiKey (sync e)) then
        refuse ''API key not found. Please set it in the extension settings.'' s
      else if \<not> startsWith (str_or (geminiApiKey (sync e)) []) ''AI'' \<or> length (str_or (geminiApiKey (sync e)) []) < 10 then
        refuse ''Invalid API key format. Please check your API key in the settings.'' s
      else read_and_ask (\<lambda>logs. callGeminiAPI (net e) (str_or (geminiApiKey (sync e)) []) logs q) e p s)"
  by (simp add: ask_def Let_def)

lemma ask_openrouter:
  "str_or (apiProvider (sync e)) ''gemini'' = ''openrouter'' \<Longrightarrow>
   ask e p q s =
     (if \<not> truthy_str (openrouterApiKey (sync e)) then
        refuse ''OpenRouter API key not found. Please set it in the extension settings.'' s
      else read_and_ask (\<lambda>logs. callOpenRouterAPI (net e) (str_or (openrouterApiKey (sync e)) []) logs q) e p s)"
  by (simp add: ask_def Let_def)

lemma ask_other:
  "str_or (apiProvider (sync e)) ''gemini'' \<noteq> ''gemini'' \<Longrightarrow>
   str_or (apiProvider (sync e)) ''gemini'' \<noteq> ''openrouter'' \<Longrightarrow>
   ask e p q s = \<lparr>reply = None, caught = None, trace = [], store = s\<rparr>"
  by (simp add: ask_def Let_def)

text \<open>
  The checks of the \<open>ASK_GEMINI\<close> handler where they exist, for a preference that
  resolves to one of the two providers. With no key stored for the provider (or an empty
  one) the handler answers with the \<open>not found\<close> error; for Gemini, a key that does
  not start with \<open>AI\<close> or is shorter than 10 answers with the
  \<open>Invalid API key format\<close> error. In both cases no call is made on the store or to
  the provider, and the store is unchanged. A key that passes makes the handler read the
  logs first. The handler of src/background.js does the same for its one provider.
\<close>

lemma precondition_checks:
  "(str_or (apiProvider (sync e)) ''gemini'' = ''gemini'' \<and> \<not> truthy_str (geminiApiKey (sync e)) \<longrightarrow>
      onMessage e (ASK_GEMINI p q) s =
        \<lparr>reply = Some (Error_response ''API key not found. Please set it in the extension settings.''),
         caught = None, trace = [], store = s\<rparr>) \<and>
   (str_or (apiProvider (sync e)) ''gemini'' = ''gemini'' \<and> geminiApiKey (sync e) = Some key \<and> key \<noteq> [] \<and>
    \<not> (startsWith key ''AI'' \<and> 10 \<le> length key) \<longrightarrow>
      onMessage e (ASK_GEMINI p q) s =
        \<lparr>reply = Some (Error_response ''Invalid API key format. Please check your API key in the settings.''),
         caught = None, trace = [], store = s\<rparr>) \<and>
   (str_or (apiProvider (sync e)) ''gemini'' = ''gemini'' \<and> geminiApiKey (sync e) = Some key \<and>
    startsWith key ''AI'' \<and> 10 \<le> length key \<longrightarrow>
      (\<exists>rest. trace (onMessage e (ASK_GEMINI p q) s) = DbGetAll p # rest)) \<and>
   (str_or (apiProvider (sync e)) ''gemini'' = ''openrouter'' \<and> \<not> truthy_str (openrouterApiKey (sync e)) \<longrightarrow>
      onMessage e (ASK_GEMINI p q) s =
        \<lparr>reply = Some (Error_response ''OpenRouter API key not found. Please set it in the extension settings.''),
         caught = None, trace = [], store = s\<rparr>) \<and>
   (str_or (apiProvider (sync e)) ''gemini'' = ''openrouter'' \<and> truthy_str (openrouterApiKey (sync e)) \<longrightarrow>
      (\<exists>rest. trace (onMessage e (ASK_GEMINI p q) s) = DbGetAll p # rest)) \<and>
   (\<not> truthy_str (geminiApiKey (sync e)) \<longrightarrow>
      ask_gemini_only e p q s =
        \<lparr>reply = Some (Error_response ''API key not found. Please set it in the extension settings.''),
         caught = None, trace = [], store = s\<rparr>) \<and>
   (geminiApiKey (sync e) = Some key \<and> key \<noteq> [] \<and> \<not> (startsWith key ''AI'' \<and> 10 \<le> length key) \<longrightarrow>
      ask_gemini_only e p q s =
        \<lparr>reply = Some (Error_response ''Invalid API key format. Please check your API key in the settings.''),
         caught = None, trace = [], store = s\<rparr>)"
proof -
  have m: "onMessage e (ASK_GEMINI p q) s = ask e p q s" by (simp add: onMessage_def)
  have 1: "str_or (apiProvider (sync e)) ''gemini'' = ''gemini'' \<and> \<not> truthy_str (geminiApiKey (sync e)) \<longrightarrow>
      onMessage e (ASK_GEMINI p q) s =
        \<lparr>reply = Some (Error_response ''API key not found. Please set it in the extension settings.''),
         caught = None, trace = [], store = s\<rparr>"
    by (simp add: m ask_gemini refuse_def)
  have 2: "str_or (apiProvider (sync e)) ''gemini'' = ''gemini'' \<and> geminiApiKey (sync e) = Some key \<and> key \<noteq> [] \<and>
    \<not> (startsWith key ''AI'' \<and> 10 \<le> length key) \<longrightarrow>
      onMessage e (ASK_GEMINI p q) s =
        \<lparr>reply = Some (Error_response ''Invalid API key format. Please check your API key in the settings.''),
         caught = None, trace = [], store = s\<rparr>"
    by (auto simp: m ask_gemini refuse_def)
  have 3: "str_or (apiProvider (sync e)) ''gemini'' = ''gemini'' \<and> geminiApiKey (sync e) = Some key \<and>
    startsWith key ''AI'' \<and> 10 \<le> length key \<longrightarrow>
      (\<exists>rest. trace (onMessage e (ASK_GEMINI p q) s) = DbGetAll p # rest)"
    using read_and_ask_trace by (auto simp: m ask_gemini)
  have 4: "str_or (apiProvider (sync e)) ''gemini'' = ''openrouter'' \<and> \<not> truthy_str (openrouterApiKey (sync e)) \<longrightarrow>
      onMessage e (ASK_GEMINI p q) s =
        \<lparr>reply = Some (Error_response ''OpenRouter API key not found. Please set it in the extension settings.''),
         caught = None, trace = [], store = s\<rparr>"
    by (simp add: m ask_openrouter refuse_def)
  have 5: "str_or (apiProvider (sync e)) ''gemini'' = ''openrouter'' \<and> truthy_str (openrouterApiKey (sync e)) \<longrightarrow>
      (\<exists>rest. trace (onMessage e (ASK_GEMINI p q) s) = DbGetAll p # rest)"
    using read_and_ask_trace by (simp add: m ask_openrouter)
  have 6: "\<not> truthy_str (geminiApiKey (sync e)) \<longrightarrow>
      ask_gemini_only e p q s =
        \<lparr>reply = Some (Error_response ''API key not found. Please set it in the extension settings.''),
         caught = None, trace = [], store = s\<rparr>"
    by (simp add: ask_gemini_only_def refuse_def)
  have 7: "geminiApiKey (sync e) = Some key \<and> key \<noteq> [] \<and> \<not> (startsWith key ''AI'' \<and> 10 \<le> length key) \<longrightarrow>
      ask_gemini_only e p q s =
        \<lparr>reply = Some (Error_response ''Invalid API key format. Please check your API key in the settings.''),
         caught = None, trace = [], store = s\<rparr>"
    by (auto simp: ask_gemini_only_def refuse_def Let_def)
  from 1 2 3 4 5 6 7 show ?thesis by blast
qed

lemma precondition_checks_witness:
  "onMessage (with_prefs None None None) (ASK_GEMINI ''s'' ''what is field a?'') createObjectStore =
     \<lparr>reply = Some (Error_response ''API key not found. Please set it in the extension settings.''),
      caught = None, trace = [], store = createObjectStore\<rparr> \<and>
   onMessage (with_prefs (Some ''gemini'') (Some ''secret'') None) (ASK_GEMINI ''s'' ''what is field a?'') createObjectStore =
     \<lparr>reply = Some (Error_response ''Invalid API key format. Please check your API key in the settings.''),
      caught = None, trace = [], store = createObjectStore\<rparr> \<and>
   (\<exists>rest. trace (onMessage (with_prefs None (Some ''AIzaSyExample'') None) (ASK_GEMINI ''s'' ''what is field a?'') createObjectStore) =
      DbGetAll ''s'' # rest) \<and>
   onMessage (with_prefs (Some ''openrouter'') (Some ''AIzaSyExample'') (Some '''')) (ASK_GEMINI ''s'' ''what is field a?'') createObjectStore =
     \<lparr>reply = Some (Error_response ''OpenRouter API key not found. Please set it in the extension settings.''),
      caught = None, trace = [], store = createObjectStore\<rparr> \<and>
   (\<exists>rest. trace (onMessage (with_prefs (Some ''openrouter'') None (Some ''x'')) (ASK_GEMINI ''s'' ''what is field a?'') createObjectStore) =
      DbGetAll ''s'' # rest) \<and>
   ask_gemini_only (with_prefs None None None) ''s'' ''what is field a?'' createObjectStore =
     \<lparr>reply = Some (Error_response ''API key not found. Please set it in the extension settings.''),
      caught = None, trace = [], store = createObjectStore\<rparr> \<and>
   ask_gemini_only (with_prefs None (Some ''AIshort'') None) ''s'' ''what is field a?'' createObjectStore =
     \<lparr>reply = Some (Error_response ''Invalid API key format. Please check your API key in the settings.''),
      caught = None, trace = [], store = createObjectStore\<rparr>"
  using
    precondition_checks [where e = "with_prefs None None None" and p = "''s''" and q = "''what is field a?''" and s = createObjectStore]
    precondition_checks [where e = "with_prefs (Some ''gemini'') (Some ''secret'') None" and p = "''s''" and q = "''what is field a?''" and s = createObjectStore and key = "''secret''"]
    precondition_checks [where e = "with_prefs None (Some ''AIzaSyExample'') None" and p = "''s''" and q = "''what is field a?''" and s = createObjectStore and key = "''AIzaSyExample''"]
    precondition_checks [where e = "with_prefs (Some ''openrouter'') (Some ''AIzaSyExample'') (Some '''')" and p = "''s''" and q = "''what is field a?''" and s = createObjectStore]
    precondition_checks [where e = "with_prefs (Some ''openrouter'') None (Some ''x'')" and p = "''s''" and q = "''what is field a?''" and s = createObjectStore]
    precondition_checks [where e = "with_prefs None (Some ''AIshort'') None" and p = "''s''" and q = "''what is field a?''" and s = createObjectStore and key = "''AIshort''"]
  by (simp add: with_prefs_def)

text \<open>
  Claim C5, at the inputs where the code departs from it. The OpenRouter branch tests
  only that a key is there: with the preference \<open>openrouter\<close> and the key \<open>x\<close> the
  handler reads the logs and sends \<open>Bearer x\<close> to the provider, and what the caller
  gets is the outcome of that call (here the network is down), not an error about the
  key's format. The Gemini branch refuses the same key before any call. And with a
  preference that names neither provider and no key stored at all, the handler sends no
  answer, so no error about a missing key either.
\<close>

theorem openrouter_key_unchecked:
  "onMessage (with_prefs (Some ''openrouter'') None (Some ''x'')) (ASK_GEMINI ''s'' ''what is field a?'') createObjectStore =
     \<lparr>reply = Some (Error_response ''Failed to communicate with OpenRouter API: Failed to fetch''),
      caught = Some (Err ''Error'' ''Failed to communicate with OpenRouter API: Failed to fetch''),
      trace = [DbGetAll ''s'',
               Fetch \<lparr>endpoint = ''https://openrouter.ai/api/v1/chat/completions'',
                      authorization = Some ''Bearer x'', prompt_logs = [],
                      prompt_question = ''what is field a?''\<rparr>],
      store = createObjectStore\<rparr> \<and>
   onMessage (with_prefs (Some ''gemini'') (Some ''x'') None) (ASK_GEMINI ''s'' ''what is field a?'') createObjectStore =
     \<lparr>reply = Some (Error_response ''Invalid API key format. Please check your API key in the settings.''),
      caught = None, trace = [], store = createObjectStore\<rparr> \<and>
   onMessage (with_prefs (Some ''ollama'') None None) (ASK_GEMINI ''s'' ''what is field a?'') createObjectStore =
     \<lparr>reply = None, caught = None, trace = [], store = createObjectStore\<rparr>"
proof -
  have l: "getRequestsByPageLoadId Healthy p createObjectStore = Inr []" for p
    by (simp add: getRequestsByPageLoadId_def createObjectStore_def)
  have r: "callOpenRouterAPI offline k [] q =
      (Inl (Err ''Error'' ''Failed to communicate with OpenRouter API: Failed to fetch''),
       [\<lparr>endpoint = ''https://openrouter.ai/api/v1/chat/completions'',
         authorization = Some (''Bearer '' @ k), prompt_logs = [], prompt_question = q\<rparr>])" for k q
    by (simp add: callOpenRouterAPI_def offline_def provider_try_def)
  have 1: "onMessage (with_prefs (Some ''openrouter'') None (Some ''x'')) (ASK_GEMINI ''s'' ''what is field a?'') createObjectStore =
     \<lparr>reply = Some (Error_response ''Failed to communicate with OpenRouter API: Failed to fetch''),
      caught = Some (Err ''Error'' ''Failed to communicate with OpenRouter API: Failed to fetch''),
      trace = [DbGetAll ''s'',
               Fetch \<lparr>endpoint = ''https://openrouter.ai/api/v1/chat/completions'',
                      authorization = Some ''Bearer x'', prompt_logs = [],
                      prompt_question = ''what is field a?''\<rparr>],
      store = createObjectStore\<rparr>"
    by (simp add: onMessage_def ask_def with_prefs_def scenario_env_def read_and_ask_def l r)
  have 2: "onMessage (with_prefs (Some ''gemini'') (Some ''x'') None) (ASK_GEMINI ''s'' ''what is field a?'') createObjectStore =
     \<lparr>reply = Some (Error_response ''Invalid API key format. Please check your API key in the settings.''),
      caught = None, trace = [], store = createObjectStore\<rparr>"
    by (simp add: onMessage_def ask_def with_prefs_def scenario_env_def refuse_def)
  have 3: "onMessage (with_prefs (Some ''ollama'') None None) (ASK_GEMINI ''s'' ''what is field a?'') createObjectStore =
     \<lparr>reply = None, caught = None, trace = [], store = createObjectStore\<rparr>"
    by (simp add: onMessage_def ask_def with_prefs_def scenario_env_def)
  from 1 2 3 show ?thesis by blast
qed

text \<open>
  Claim C10, amended. \<open>result.apiProvider || 'gemini'\<close> replaces every falsy preference,
  the absent one and the empty string alike, by \<open>gemini\<close>. When the stored preference
  is a non-empty string other than \<open>gemini\<close> and \<open>openrouter\<close>, the handler of
  \<open>ASK_GEMINI\<close> takes no branch: \<open>sendResponse\<close> is never called, nothing is caught,
  no call is made, the store is unchanged. When the preference is absent or empty, the
  handler does what it does for \<open>gemini\<close>.
\<close>

theorem unknown_provider:
  "(apiProvider (sync e) = Some v \<and> v \<noteq> [] \<and> v \<noteq> ''gemini'' \<and> v \<noteq> ''openrouter'' \<longrightarrow>
      onMessage e (ASK_GEMINI p q) s = \<lparr>reply = None, caught = None, trace = [], store = s\<rparr>) \<and>
   (apiProvider (sync e) = None \<or> apiProvider (sync e) = Some [] \<longrightarrow>
      onMessage e (ASK_GEMINI p q) s =
        onMessage (e\<lparr>sync := (sync e)\<lparr>apiProvider := Some ''gemini''\<rparr>\<rparr>) (ASK_GEMINI p q) s)"
proof -
  have m: "onMessage e' (ASK_GEMINI p q) s = ask e' p q s" for e' by (simp add: onMessage_def)
  have 1: "apiProvider (sync e) = Some v \<and> v \<noteq> [] \<and> v \<noteq> ''gemini'' \<and> v \<noteq> ''openrouter'' \<longrightarrow>
      onMessage e (ASK_GEMINI p q) s = \<lparr>reply = None, caught = None, trace = [], store = s\<rparr>"
    by (simp add: m ask_other)
  have 2: "apiProvider (sync e) = None \<or> apiProvider (sync e) = Some [] \<longrightarrow>
      onMessage e (ASK_GEMINI p q) s =
        onMessage (e\<lparr>sync := (sync e)\<lparr>apiProvider := Some ''gemini''\<rparr>\<rparr>) (ASK_GEMINI p q) s"
    by (auto simp: m ask_gemini read_and_ask_def)
  from 1 2 show ?thesis by blast
qed

theorem unknown_provider_witness:
  "onMessage (with_prefs (Some ''ollama'') (Some ''AIzaSyExample'') (Some ''sk-or-v1-0'')) (ASK_GEMINI ''s'' ''what is field a?'') createObjectStore =
     \<lparr>reply = None, caught = None, trace = [], store = createObjectStore\<rparr> \<and>
   onMessage (with_prefs None None None) (ASK_GEMINI ''s'' ''what is field a?'') createObjectStore =
     onMessage (with_prefs (Some ''gemini'') None None) (ASK_GEMINI ''s'' ''what is field a?'') createObjectStore"
  using
    unknown_provider [where e = "with_prefs (Some ''ollama'') (Some ''AIzaSyExample'') (Some ''sk-or-v1-0'')" and p = "''s''" and q = "''what is field a?''" and s = createObjectStore and v = "''ollama''"]
    unknown_provider [where e = "with_prefs None None None" and p = "''s''" and q = "''what is field a?''" and s = createObjectStore]
  by (simp add: with_prefs_def)

text \<open>
  The empty string is a value other than \<open>gemini\<close> and \<open>openrouter\<close> (the settings
  form stores it when no option of the provider list is selected), and the handler
  answers for it.
\<close>

theorem unknown_provider_counterexample:
  "apiProvider (sync (with_prefs (Some '''') None None)) = Some '''' \<and>
   '''' \<noteq> ''gemini'' \<and> '''' \<noteq> ''openrouter'' \<and>
   reply (onMessage (with_prefs (Some '''') None None) (ASK_GEMINI ''s'' ''what is field a?'') createObjectStore) =
     Some (Error_response ''API key not found. Please set it in the extension settings.'')"
  by (simp add: with_prefs_def onMessage_def ask_def refuse_def)

subsection \<open>Errors of the provider\<close>

text \<open>
  What the two provider functions make of a response that is not \<open>ok\<close>: the
  provider's message when the body parses and \<open>error.message\<close> is a non-empty string;
  the status text when the body parses, has an \<open>error\<close> and its \<open>message\<close> is
  falsy; the message of the parser's error when the body does not parse. A response that
  is \<open>ok\<close> and has no answer gives the fixed string.
\<close>

lemma provider_try_message:
  "\<not> ok r \<Longrightarrow> json_body r = Inr errorData \<Longrightarrow>
   get_prop (Some errorData) ''error'' = Inr err \<Longrightarrow> get_prop err ''message'' = Inr (Some (JStr m)) \<Longrightarrow>
   m \<noteq> [] \<Longrightarrow>
   provider_try label answer_of (Inr r) =
     Inl (Err ''Error'' (''Failed to communicate with '' @ label @ '' API: '' @ label @ '' API error: '' @ m))"
  by (simp add: provider_try_def)

lemma provider_try_statusText:
  "\<not> ok r \<Longrightarrow> json_body r = Inr errorData \<Longrightarrow>
   get_prop (Some errorData) ''error'' = Inr err \<Longrightarrow> get_prop err ''message'' = Inr msg \<Longrightarrow>
   \<not> truthy msg \<Longrightarrow>
   provider_try label answer_of (Inr r) =
     Inl (Err ''Error'' (''Failed to communicate with '' @ label @ '' API: '' @ label @ '' API error: '' @ statusText r))"
  by (cases msg) (simp_all add: provider_try_def)

lemma provider_try_unparseable:
  "\<not> ok r \<Longrightarrow> json_body r = Inl e \<Longrightarrow>
   provider_try label answer_of (Inr r) =
     Inl (Err ''Error'' (''Failed to communicate with '' @ label @ '' API: '' @ err_message e))"
  by (simp add: provider_try_def)

lemma provider_try_fallback:
  "ok r \<Longrightarrow> json_body r = Inr (JObj []) \<Longrightarrow>
   provider_try ''Gemini'' gemini_answer (Inr r) = Inr (JStr ''No answer found.'') \<and>
   provider_try ''OpenRouter'' openrouter_answer (Inr r) = Inr (JStr ''No answer found.'')"
  by (simp add: provider_try_def gemini_answer_def openrouter_answer_def)

text \<open>
  Claim C6, at the input where the code departs from it. The provider answers 502,
  status text \<open>Bad Gateway\<close>, with a body that is not JSON. \<open>response.json()\<close> rejects
  before \<open>errorData.error.message || response.statusText\<close> is evaluated, and the
  \<open>catch\<close> sends on the parser's message: the error that reaches the caller does not
  contain the status text. Both providers behave so.
\<close>

theorem unparseable_error_body:
  "reply (onMessage ((with_prefs (Some ''gemini'') (Some ''AIzaSyExample'') None)\<lparr>net := bad_gateway\<rparr>)
            (ASK_GEMINI ''s'' ''what is field a?'') createObjectStore) =
     Some (Error_response ''Failed to communicate with Gemini API: Unexpected token < in JSON at position 0'') \<and>
   reply (onMessage ((with_prefs (Some ''openrouter'') None (Some ''sk-or-v1-0''))\<lparr>net := bad_gateway\<rparr>)
            (ASK_GEMINI ''s'' ''what is field a?'') createObjectStore) =
     Some (Error_response ''Failed to communicate with OpenRouter API: Unexpected token < in JSON at position 0'') \<and>
   \<not> includes_str ''Failed to communicate with Gemini API: Unexpected token < in JSON at position 0'' ''Bad Gateway'' \<and>
   \<not> includes_str ''Failed to communicate with OpenRouter API: Unexpected token < in JSON at position 0'' ''Bad Gateway''"
proof -
  have g: "callGeminiAPI bad_gateway k [] q =
      (Inl (Err ''Error'' ''Failed to communicate with Gemini API: Unexpected token < in JSON at position 0''),
       [\<lparr>endpoint = ''https://generativelanguage.googleapis.com/v1beta/models/gemini-1.5-flash:generateContent?key='' @ k,
         authorization = None, prompt_logs = [], prompt_question = q\<rparr>])" for k q
    by (simp add: callGeminiAPI_def bad_gateway_def provider_try_def)
  have r: "callOpenRouterAPI bad_gateway k [] q =
      (Inl (Err ''Error'' ''Failed to communicate with OpenRouter API: Unexpected token < in JSON at position 0''),
       [\<lparr>endpoint = ''https://openrouter.ai/api/v1/chat/completions'',
         authorization = Some (''Bearer '' @ k), prompt_logs = [], prompt_question = q\<rparr>])" for k q
    by (simp add: callOpenRouterAPI_def bad_gateway_def provider_try_def)
  have l: "getRequestsByPageLoadId Healthy p createObjectStore = Inr []" for p
    by (simp add: getRequestsByPageLoadId_def createObjectStore_def)
  have 1: "reply (onMessage ((with_prefs (Some ''gemini'') (Some ''AIzaSyExample'') None)\<lparr>net := bad_gateway\<rparr>)
            (ASK_GEMINI ''s'' ''what is field a?'') createObjectStore) =
     Some (Error_response ''Failed to communicate with Gemini API: Unexpected token < in JSON at position 0'')"
    by (simp add: onMessage_def ask_def with_prefs_def scenario_env_def read_and_ask_def l g)
  have 2: "reply (onMessage ((with_prefs (Some ''openrouter'') None (Some ''sk-or-v1-0''))\<lparr>net := bad_gateway\<rparr>)
            (ASK_GEMINI ''s'' ''what is field a?'') createObjectStore) =
     Some (Error_response ''Failed to communicate with OpenRouter API: Unexpected token < in JSON at position 0'')"
    by (simp add: onMessage_def ask_def with_prefs_def scenario_env_def read_and_ask_def l r)
  have 3: "\<not> includes_str ''Failed to communicate with Gemini API: Unexpected token < in JSON at position 0'' ''Bad Gateway''"
    by simp
  have 4: "\<not> includes_str ''Failed to communicate with OpenRouter API: Unexpected token < in JSON at position 0'' ''Bad Gateway''"
    by simp
  from 1 2 3 4 show ?thesis by blast
qed

subsection \<open>Keys\<close>

lemma deleteRequestById_keyGenerator: "keyGenerator (snd (deleteRequestById eng k s)) = keyGenerator s"
  by (simp add: deleteRequestById_def split: engine.split js_number.split)

lemma clearAllRequests_keyGenerator: "keyGenerator (snd (clearAllRequests eng s)) = keyGenerator s"
  by (simp add: clearAllRequests_def split: engine.split)

lemma assigned_lower_bound: "k \<in> set (assigned calls s) \<Longrightarrow> keyGenerator s \<le> k"
proof (induction calls s rule: assigned.induct)
  case (1 s)
  then show ?case by simp
next
  case (2 eng d rest s)
  show ?case
  proof (cases "saveRequest eng d s")
    case (Pair res s')
    show ?thesis
    proof (cases res)
      case (Inl e)
      with Pair have "s' = s" by (auto dest: saveRequest_Inl)
      with 2 Pair Inl show ?thesis by auto
    next
      case (Inr j)
      with Pair have j: "j = keyGenerator s" "keyGenerator s' = Suc j"
        by (auto dest: saveRequest_Inr)
      from 2 Pair Inr have "k = j \<or> keyGenerator s' \<le> k" by auto
      with j show ?thesis by auto
    qed
  qed
next
  case (3 eng k' rest s)
  then show ?case by (simp add: deleteRequestById_keyGenerator)
next
  case (4 eng rest s)
  then show ?case by (simp add: clearAllRequests_keyGenerator)
qed

lemma assigned_increasing: "sorted_wrt (<) (assigned calls s)"
proof (induction calls s rule: assigned.induct)
  case (2 eng d rest s)
  show ?case
  proof (cases "saveRequest eng d s")
    case (Pair res s')
    show ?thesis
    proof (cases res)
      case (Inl e)
      with 2 Pair show ?thesis by simp
    next
      case (Inr j)
      with Pair have "keyGenerator s' = Suc j" by (auto dest: saveRequest_Inr)
      then have "\<forall>k \<in> set (assigned rest s'). j < k"
        using assigned_lower_bound [of _ rest s'] by fastforce
      with 2 Pair Inr show ?thesis by simp
    qed
  qed
qed simp_all

text \<open>
  Claim C7. Whatever calls are made on the store, with whatever failures of the engine
  between them, the keys returned by the successful \<open>saveRequest\<close> calls are strictly
  increasing in the order of completion, hence pairwise different; and the key of a
  saved record is the current number of the store's key generator, whatever the request
  data are: the capturing layer supplies no \<open>id\<close>.
\<close>

theorem id_monotonicity:
  "sorted_wrt (<) (assigned calls s) \<and> distinct (assigned calls s) \<and>
   (\<forall>eng d k s'. saveRequest eng d s = (Inr k, s') \<longrightarrow>
      k = keyGenerator s \<and> records s' = records s @ [stored d k])"
proof -
  have "sorted_wrt (<) (assigned calls s)" by (rule assigned_increasing)
  moreover from this have "distinct (assigned calls s)"
    by (simp add: strict_sorted_iff)
  moreover have "\<forall>eng d k s'. saveRequest eng d s = (Inr k, s') \<longrightarrow>
      k = keyGenerator s \<and> records s' = records s @ [stored d k]"
    by (auto dest: saveRequest_Inr)
  ultimately show ?thesis by blast
qed

theorem id_monotonicity_witness:
  "assigned [(Healthy, Save (tag ''s'' scenario_json)), (Healthy, Clear),
             (RequestFails DataError, Save (tag ''s'' scenario_json)),
             (Healthy, Save (tag ''s'' scenario_html)), (Healthy, Delete (Num 2)),
             (Healthy, Save (tag ''s'' scenario_json))] createObjectStore = [1, 2, 3] \<and>
   sorted_wrt (<) [1, 2, 3 :: nat] \<and> distinct [1, 2, 3 :: nat] \<and>
   saveRequest Healthy (tag ''s'' scenario_json) createObjectStore =
     (Inr 1, \<lparr>records = [stored (tag ''s'' scenario_json) 1], keyGenerator = 2\<rparr>)"
proof -
  let ?calls = "[(Healthy, Save (tag ''s'' scenario_json)), (Healthy, Clear),
             (RequestFails DataError, Save (tag ''s'' scenario_json)),
             (Healthy, Save (tag ''s'' scenario_html)), (Healthy, Delete (Num 2)),
             (Healthy, Save (tag ''s'' scenario_json))]"
  have a: "assigned ?calls createObjectStore = [1, 2, 3]"
    by (simp add: saveRequest_cases clearAllRequests_def deleteRequestById_def createObjectStore_def)
  have b: "saveRequest Healthy (tag ''s'' scenario_json) createObjectStore =
     (Inr 1, \<lparr>records = [stored (tag ''s'' scenario_json) 1], keyGenerator = 2\<rparr>)"
    by (simp add: saveRequest_cases createObjectStore_def)
  show ?thesis
    using id_monotonicity [of ?calls createObjectStore] a b by simp
qed

subsection \<open>Round trip\<close>

text \<open>
  Claim C8. A request saved with success is among the records that
  \<open>getRequestsByPageLoadId\<close> (and the handler of \<open>GET_LOGS\<close>) returns for its
  \<open>pageLoadId\<close>, with \<open>url\<close>, \<open>method\<close>, \<open>responseBody\<close>, \<open>contentType\<close>,
  \<open>timestamp\<close> and \<open>pageLoadId\<close> as they were saved, and with the key the store
  assigned as its \<open>id\<close>.
\<close>

theorem round_trip:
  "saveRequest eng d s = (Inr k, s') \<longrightarrow>
     (\<exists>logs. getRequestsByPageLoadId Healthy (pageLoadId d) s' = Inr logs \<and>
        (\<exists>r \<in> set logs.
           url r = url d \<and> req_method r = req_method d \<and> responseBody r = responseBody d \<and>
           contentType r = contentType d \<and> timestamp r = timestamp d \<and>
           pageLoadId r = pageLoadId d \<and> rec_id r = k) \<and>
        reply (onMessage (e\<lparr>idb := Healthy\<rparr>) (GET_LOGS (pageLoadId d)) s') = Some (Logs logs))"
proof
  assume "saveRequest eng d s = (Inr k, s')"
  then have rs: "records s' = records s @ [stored d k]" by (auto dest: saveRequest_Inr)
  let ?logs = "filter (\<lambda>r. pageLoadId r = pageLoadId d) (records s')"
  have 1: "getRequestsByPageLoadId Healthy (pageLoadId d) s' = Inr ?logs"
    by (simp add: getRequestsByPageLoadId_def)
  have 2: "stored d k \<in> set ?logs" by (simp add: rs stored_def)
  have 3: "reply (onMessage (e\<lparr>idb := Healthy\<rparr>) (GET_LOGS (pageLoadId d)) s') = Some (Logs ?logs)"
    by (simp add: onMessage_def 1)
  have 4: "url (stored d k) = url d \<and> req_method (stored d k) = req_method d \<and>
           responseBody (stored d k) = responseBody d \<and> contentType (stored d k) = contentType d \<and>
           timestamp (stored d k) = timestamp d \<and> pageLoadId (stored d k) = pageLoadId d \<and>
           rec_id (stored d k) = k"
    by (simp add: stored_def)
  from 1 2 3 4 show "\<exists>logs. getRequestsByPageLoadId Healthy (pageLoadId d) s' = Inr logs \<and>
        (\<exists>r \<in> set logs.
           url r = url d \<and> req_method r = req_method d \<and> responseBody r = responseBody d \<and>
           contentType r = contentType d \<and> timestamp r = timestamp d \<and>
           pageLoadId r = pageLoadId d \<and> rec_id r = k) \<and>
        reply (onMessage (e\<lparr>idb := Healthy\<rparr>) (GET_LOGS (pageLoadId d)) s') = Some (Logs logs)"
    by blast
qed

theorem round_trip_witness:
  "saveRequest Healthy (tag ''s'' scenario_json) createObjectStore =
     (Inr 1, \<lparr>records = [stored (tag ''s'' scenario_json) 1], keyGenerator = 2\<rparr>) \<and>
   reply (onMessage scenario_env (GET_LOGS ''s'')
            \<lparr>records = [stored (tag ''s'' scenario_json) 1], keyGenerator = 2\<rparr>) =
     Some (Logs [stored (tag ''s'' scenario_json) 1]) \<and>
   responseBody (stored (tag ''s'' scenario_json) 1) = ''{\"a\":1}''"
proof -
  have b: "saveRequest Healthy (tag ''s'' scenario_json) createObjectStore =
     (Inr 1, \<lparr>records = [stored (tag ''s'' scenario_json) 1], keyGenerator = 2\<rparr>)"
    by (simp add: saveRequest_cases createObjectStore_def)
  have c: "scenario_env\<lparr>idb := Healthy\<rparr> = scenario_env" by (simp add: scenario_env_def)
  have d: "pageLoadId (tag ''s'' scenario_json) = ''s''" by (simp add: tag_def)
  have e: "getRequestsByPageLoadId Healthy ''s'' \<lparr>records = [stored (tag ''s'' scenario_json) 1], keyGenerator = 2\<rparr>
     = Inr [stored (tag ''s'' scenario_json) 1]"
    by (simp add: getRequestsByPageLoadId_def stored_def tag_def)
  have f: "responseBody (stored (tag ''s'' scenario_json) 1) = ''{\"a\":1}''"
    by (simp add: stored_def tag_def scenario_json_def)
  show ?thesis
    using round_trip [of Healthy "tag ''s'' scenario_json" createObjectStore 1
        "\<lparr>records = [stored (tag ''s'' scenario_json) 1], keyGenerator = 2\<rparr>" scenario_env] b f
    unfolding c d e
    by simp
qed

subsection \<open>Deleting\<close>

text \<open>
  Claim C9. After a successful \<open>deleteRequestById(x)\<close>, a second call with the same
  \<open>x\<close> leaves the store as the first call left it, whatever the engine does; for a
  key \<open>x\<close> the second call succeeds although no record has the key any more, and the
  handler of \<open>DELETE_LOG\<close> answers \<open>{success: true}\<close> again.
\<close>

theorem delete_idempotence:
  "snd (deleteRequestById eng2 k (snd (deleteRequestById Healthy k s))) = snd (deleteRequestById Healthy k s) \<and>
   fst (deleteRequestById Healthy (Num i) (snd (deleteRequestById Healthy (Num i) s))) = Inr () \<and>
   reply (onMessage (e\<lparr>idb := Healthy\<rparr>) (DELETE_LOG (Num i))
            (store (onMessage (e\<lparr>idb := Healthy\<rparr>) (DELETE_LOG (Num i)) s))) = Some Success_true \<and>
   store (onMessage (e\<lparr>idb := Healthy\<rparr>) (DELETE_LOG (Num i))
            (store (onMessage (e\<lparr>idb := Healthy\<rparr>) (DELETE_LOG (Num i)) s))) =
     store (onMessage (e\<lparr>idb := Healthy\<rparr>) (DELETE_LOG (Num i)) s)"
proof -
  have a: "snd (deleteRequestById eng k (snd (deleteRequestById Healthy k s))) = snd (deleteRequestById Healthy k s)"
    for eng k
    by (cases eng; cases k) (simp_all add: deleteRequestById_def)
  have b: "fst (deleteRequestById Healthy (Num i) t) = Inr ()" for t
    by (simp add: deleteRequestById_def)
  have c: "onMessage (e\<lparr>idb := Healthy\<rparr>) (DELETE_LOG (Num i)) t =
      \<lparr>reply = Some Success_true, caught = None, trace = [DbDelete (Num i)],
       store = snd (deleteRequestById Healthy (Num i) t)\<rparr>" for t
    by (simp add: onMessage_def deleteRequestById_def)
  show ?thesis using a [of Healthy "Num i"] a [of eng2 k] b by (simp add: c)
qed

theorem delete_idempotence_witness:
  "snd (deleteRequestById Healthy (Num 1) \<lparr>records = [stored (tag ''s'' scenario_json) 1], keyGenerator = 2\<rparr>) =
     \<lparr>records = [], keyGenerator = 2\<rparr> \<and>
   deleteRequestById Healthy (Num 1) \<lparr>records = [], keyGenerator = 2\<rparr> =
     (Inr (), \<lparr>records = [], keyGenerator = 2\<rparr>) \<and>
   reply (onMessage scenario_env (DELETE_LOG (Num 1)) \<lparr>records = [], keyGenerator = 2\<rparr>) = Some Success_true"
proof -
  let ?s = "\<lparr>records = [stored (tag ''s'' scenario_json) 1], keyGenerator = 2\<rparr>"
  have a: "snd (deleteRequestById Healthy (Num 1) ?s) = \<lparr>records = [], keyGenerator = 2\<rparr>"
    by (simp add: deleteRequestById_def stored_def)
  have c: "scenario_env\<lparr>idb := Healthy\<rparr> = scenario_env" by (simp add: scenario_env_def)
  have d: "store (onMessage scenario_env (DELETE_LOG (Num 1)) ?s) = \<lparr>records = [], keyGenerator = 2\<rparr>"
    by (simp add: onMessage_def deleteRequestById_def stored_def scenario_env_def)
  show ?thesis
    using delete_idempotence [of Healthy "Num 1" ?s 1 scenario_env]
    unfolding a c d
    by (simp add: prod_eq_iff)
qed

end
